theory Spec2Isabelle
  imports Main "HOL-Library.Word"
begin

unbundle bit_operations_syntax

section \<open>Data model\<close>

text \<open>
  The repository holds three variants of one command-line program: \<^verbatim>\<open>src/main.go\<close> and
  the two files of \<^verbatim>\<open>src/unnamed/part_000\<close>. They share the types, the function
  \<^verbatim>\<open>loadTokenFromConfig\<close> and the function \<^verbatim>\<open>translate\<close>, and differ in \<^verbatim>\<open>main\<close>.
  Go strings are byte sequences, so a Go \<^verbatim>\<open>string\<close> is a \<^typ>\<open>string\<close> here.
\<close>

text \<open>
  A Go \<^verbatim>\<open>error\<close> value. \<open>ErrorsNew m\<close> is \<^verbatim>\<open>errors.New(m)\<close>, \<open>Errorf m\<close> is
  \<^verbatim>\<open>fmt.Errorf(m)\<close> without verbs, \<open>Errorf_w p e\<close> is \<^verbatim>\<open>fmt.Errorf(p + "%w", e)\<close> and
  \<open>Errorf_d p n\<close> is \<^verbatim>\<open>fmt.Errorf(p + "%d", n)\<close>. Errors that come from the operating
  system or from a library are values of the same type.
\<close>

datatype goerror =
    ErrorsNew string
  | Errorf string
  | Errorf_w string goerror
  | Errorf_d string int

record Config =
  APIToken :: string

record Message =
  Role :: string
  Content :: string

record ChatRequest =
  Model :: string
  Messages :: "Message list"

record Choice =
  choice_Message :: Message

record ErrorObj =
  error_Message :: string
  error_Type :: string

record ChatResponse =
  Choices :: "Choice list"
  Error :: ErrorObj

text \<open>The parts of \<^verbatim>\<open>http.Request\<close> and \<^verbatim>\<open>http.Response\<close> the program touches.
  \<open>resp_Body\<close> is what \<^verbatim>\<open>io.ReadAll(resp.Body)\<close> returns: the bytes read and the error,
  if any.\<close>

type_synonym Header = "string \<rightharpoonup> string list"

record Request =
  Method :: string
  URL :: string
  req_Body :: string
  req_Header :: Header

record Response =
  StatusCode :: int
  Status :: string
  resp_Header :: Header
  resp_Body :: "string \<times> goerror option"

text \<open>An argument of a formatted print.\<close>

datatype fmtarg = S string | E goerror | H Header

text \<open>
  What the program does to the outside, in order: one event for each call of
  \<^verbatim>\<open>log.Println\<close>/\<^verbatim>\<open>log.Printf\<close> (format and arguments), \<^verbatim>\<open>fmt.Println\<close>,
  \<^verbatim>\<open>os.Exit\<close>, \<^verbatim>\<open>os.UserHomeDir\<close>, \<^verbatim>\<open>os.ReadFile\<close>, \<^verbatim>\<open>yaml.Unmarshal\<close>,
  \<^verbatim>\<open>client.Do\<close>, \<^verbatim>\<open>json.Unmarshal\<close>, \<^verbatim>\<open>clipboard.WriteAll\<close>,
  \<^verbatim>\<open>os.Stdin.Stat\<close> and the scanner loop on standard input.
\<close>

datatype event =
    EvLog string "fmtarg list"
  | EvPrintln "fmtarg list"
  | EvExit int
  | EvUserHomeDir
  | EvReadFile string
  | EvYamlUnmarshal string
  | EvClientDo Request
  | EvJsonUnmarshal string
  | EvClipboard string
  | EvStdinStat
  | EvStdinScan

text \<open>
  The environment of one run: what the operating system, the network and the parsing
  libraries answer. \<open>Stdin_Stat\<close> is the \<^verbatim>\<open>FileMode\<close> of standard input, a 32-bit
  value; \<open>Stdin_tokens\<close> are the lines the scanner yields.
\<close>

record world =
  os_UserHomeDir :: "goerror + string"
  os_ReadFile :: "string \<Rightarrow> goerror + string"
  yaml_Unmarshal :: "string \<Rightarrow> goerror + Config"
  json_Marshal :: "ChatRequest \<Rightarrow> goerror + string"
  NewRequest_error :: "string \<Rightarrow> string \<Rightarrow> goerror option"
  client_Do :: "Request \<Rightarrow> goerror + Response"
  json_Unmarshal :: "string \<Rightarrow> goerror + ChatResponse"
  clipboard_WriteAll :: "string \<Rightarrow> goerror option"
  Stdin_Stat :: "goerror + 32 word"
  Stdin_tokens :: "string list"

section \<open>The Go library functions the program calls\<close>

text \<open>\<^verbatim>\<open>strings.Join(elems, sep)\<close>.\<close>

fun strings_Join :: "string list \<Rightarrow> string \<Rightarrow> string" where
  "strings_Join [] sep = []"
| "strings_Join [x] sep = x"
| "strings_Join (x # y # ys) sep = x @ sep @ strings_Join (y # ys) sep"

text \<open>The verb \<^verbatim>\<open>%d\<close> on an \<^verbatim>\<open>int\<close>: decimal digits, with a minus sign when negative.\<close>

definition digit :: "nat \<Rightarrow> char" where
  "digit n = char_of (of_char (CHR ''0'') + n)"

function decimal :: "nat \<Rightarrow> string" where
  "decimal n = (if n < 10 then [digit n] else decimal (n div 10) @ [digit (n mod 10)])"
  by pat_completeness auto
termination
  by (relation "measure id") auto

definition fmt_d :: "int \<Rightarrow> string" where
  "fmt_d i = (if i < 0 then CHR ''-'' # decimal (nat (- i)) else decimal (nat i))"

text \<open>The method \<^verbatim>\<open>Error()\<close> of an error: its message.\<close>

fun err_Error :: "goerror \<Rightarrow> string" where
  "err_Error (ErrorsNew m) = m"
| "err_Error (Errorf m) = m"
| "err_Error (Errorf_w p e) = p @ err_Error e"
| "err_Error (Errorf_d p n) = p @ fmt_d n"

text \<open>
  \<^verbatim>\<open>filepath.Clean\<close> and \<^verbatim>\<open>filepath.Join\<close> with the separator \<^verbatim>\<open>/\<close>. \<open>Clean\<close> works
  on the elements of the path between separators: empty elements and \<^verbatim>\<open>.\<close> are dropped,
  \<^verbatim>\<open>..\<close> removes the element before it, is dropped at the root and is kept at the start
  of a relative path; the empty result is \<^verbatim>\<open>.\<close>. \<open>cleanStep\<close> holds the elements written
  so far, the last one first.
\<close>

fun splitSep :: "string \<Rightarrow> string list" where
  "splitSep [] = [[]]"
| "splitSep (c # s) =
     (if c = CHR ''/'' then [] # splitSep s
      else (case splitSep s of [] \<Rightarrow> [[c]] | x # xs \<Rightarrow> (c # x) # xs))"

definition cleanStep :: "bool \<Rightarrow> string list \<Rightarrow> string \<Rightarrow> string list" where
  "cleanStep rooted out e =
     (if e = [] \<or> e = ''.'' then out
      else if e = ''..'' then
        (case out of
           [] \<Rightarrow> (if rooted then [] else [''..''])
         | x # xs \<Rightarrow> (if x = ''..'' then ''..'' # out else xs))
      else e # out)"

definition Clean :: "string \<Rightarrow> string" where
  "Clean path =
     (if path = [] then ''.''
      else
        let rooted = (hd path = CHR ''/'');
            out = rev (foldl (cleanStep rooted) [] (splitSep path))
        in if rooted then CHR ''/'' # strings_Join out ''/''
           else if out = [] then ''.''
           else strings_Join out ''/'')"

definition filepath_Join :: "string list \<Rightarrow> string" where
  "filepath_Join elem =
     (case dropWhile (\<lambda>e. e = []) elem of
        [] \<Rightarrow> []
      | es \<Rightarrow> Clean (strings_Join es ''/''))"

text \<open>
  \<^verbatim>\<open>strings.TrimSpace\<close>: leading, then trailing white space removed, white space being
  the Unicode code points with the property White_Space, read from the UTF-8 bytes of
  the string: the six ASCII characters of \<open>asciiSpace\<close>, U+0085 and U+00A0 (two bytes),
  and U+1680, U+2000 to U+200A, U+2028, U+2029, U+202F, U+205F and U+3000 (three bytes).
  A byte sequence that is not valid UTF-8 decodes to U+FFFD, which is not white space.
\<close>

definition asciiSpace :: "char \<Rightarrow> bool" where
  "asciiSpace c = (c \<in> set [CHR 0x09, CHR 0x0A, CHR 0x0B, CHR 0x0C, CHR 0x0D, CHR 0x20])"

definition space2 :: "char \<Rightarrow> char \<Rightarrow> bool" where
  "space2 a b = (a = CHR 0xC2 \<and> (b = CHR 0x85 \<or> b = CHR 0xA0))"

definition space3 :: "char \<Rightarrow> char \<Rightarrow> char \<Rightarrow> bool" where
  "space3 a b c =
     ((a = CHR 0xE1 \<and> b = CHR 0x9A \<and> c = CHR 0x80) \<or>
      (a = CHR 0xE2 \<and> b = CHR 0x80 \<and>
         ((0x80 \<le> (of_char c :: nat) \<and> (of_char c :: nat) \<le> 0x8A) \<or>
          c = CHR 0xA8 \<or> c = CHR 0xA9 \<or> c = CHR 0xAF)) \<or>
      (a = CHR 0xE2 \<and> b = CHR 0x81 \<and> c = CHR 0x9F) \<or>
      (a = CHR 0xE3 \<and> b = CHR 0x80 \<and> c = CHR 0x80))"

fun trimLeftSpace :: "string \<Rightarrow> string" where
  "trimLeftSpace (a # b # c # s) =
     (if asciiSpace a then trimLeftSpace (b # c # s)
      else if space2 a b then trimLeftSpace (c # s)
      else if space3 a b c then trimLeftSpace s
      else a # b # c # s)"
| "trimLeftSpace [a, b] =
     (if asciiSpace a then trimLeftSpace [b]
      else if space2 a b then []
      else [a, b])"
| "trimLeftSpace [a] = (if asciiSpace a then [] else [a])"
| "trimLeftSpace [] = []"

text \<open>The same from the end, on the reversed string: \<open>a\<close> is the last byte.\<close>

fun trimRightSpace_rev :: "string \<Rightarrow> string" where
  "trimRightSpace_rev (a # b # c # s) =
     (if asciiSpace a then trimRightSpace_rev (b # c # s)
      else if space2 b a then trimRightSpace_rev (c # s)
      else if space3 c b a then trimRightSpace_rev s
      else a # b # c # s)"
| "trimRightSpace_rev [a, b] =
     (if asciiSpace a then trimRightSpace_rev [b]
      else if space2 b a then []
      else [a, b])"
| "trimRightSpace_rev [a] = (if asciiSpace a then [] else [a])"
| "trimRightSpace_rev [] = []"

definition strings_TrimSpace :: "string \<Rightarrow> string" where
  "strings_TrimSpace s = rev (trimRightSpace_rev (rev (trimLeftSpace s)))"

text \<open>\<open>startsWithSpace s\<close>: \<open>s\<close> starts with the UTF-8 bytes of a white space code point;
  \<open>endsWithSpace s\<close>: \<open>s\<close> ends with them.\<close>

fun startsWithSpace :: "string \<Rightarrow> bool" where
  "startsWithSpace (a # b # c # s) = (asciiSpace a \<or> space2 a b \<or> space3 a b c)"
| "startsWithSpace [a, b] = (asciiSpace a \<or> space2 a b)"
| "startsWithSpace [a] = asciiSpace a"
| "startsWithSpace [] = False"

fun endsWithSpace_rev :: "string \<Rightarrow> bool" where
  "endsWithSpace_rev (a # b # c # s) = (asciiSpace a \<or> space2 b a \<or> space3 c b a)"
| "endsWithSpace_rev [a, b] = (asciiSpace a \<or> space2 b a)"
| "endsWithSpace_rev [a] = asciiSpace a"
| "endsWithSpace_rev [] = False"

definition endsWithSpace :: "string \<Rightarrow> bool" where
  "endsWithSpace s = endsWithSpace_rev (rev s)"

text \<open>\<^verbatim>\<open>http.NewRequest(method, url, body)\<close>: an error, or the request with these three
  and no header.\<close>

definition http_NewRequest :: "world \<Rightarrow> string \<Rightarrow> string \<Rightarrow> string \<Rightarrow> goerror + Request" where
  "http_NewRequest w method url body =
     (case NewRequest_error w method url of
        Some err \<Rightarrow> Inl err
      | None \<Rightarrow> Inr \<lparr>Method = method, URL = url, req_Body = body, req_Header = Map.empty\<rparr>)"

text \<open>\<^verbatim>\<open>req.Header.Set(key, value)\<close>, for a key in canonical form.\<close>

definition Header_Set :: "Request \<Rightarrow> string \<Rightarrow> string \<Rightarrow> Request" where
  "Header_Set req key v = req\<lparr>req_Header := (req_Header req)(key \<mapsto> [v])\<rparr>"

definition http_StatusOK :: int where
  "http_StatusOK = 200"

text \<open>\<^verbatim>\<open>os.ModeCharDevice\<close>, the bit \<^verbatim>\<open>1 << 21\<close> of a \<^verbatim>\<open>FileMode\<close>.\<close>

definition os_ModeCharDevice :: "32 word" where
  "os_ModeCharDevice = push_bit 21 1"

text \<open>\<^verbatim>\<open>log.Fatal\<close> and \<^verbatim>\<open>log.Fatalf\<close>: the log line, then \<^verbatim>\<open>os.Exit(1)\<close>.\<close>

definition log_Fatalf :: "string \<Rightarrow> fmtarg list \<Rightarrow> event list" where
  "log_Fatalf format as = [EvLog format as, EvExit 1]"

section \<open>loadTokenFromConfig\<close>

text \<open>The same in the three variants. The result is the calls made and the value returned.\<close>

definition loadTokenFromConfig :: "world \<Rightarrow> event list \<times> (goerror + string)" where
  "loadTokenFromConfig w =
     (case os_UserHomeDir w of
        Inl err \<Rightarrow> ([EvUserHomeDir], Inl (Errorf_w ''failed to retrieve home directory: '' err))
      | Inr home \<Rightarrow>
          let configPath = filepath_Join [home, ''.config'', ''openapi'', ''secret.yml'']
          in (case os_ReadFile w configPath of
                Inl err \<Rightarrow>
                  ([EvUserHomeDir, EvReadFile configPath],
                   Inl (Errorf_w ''failed to read config file: '' err))
              | Inr data \<Rightarrow>
                  (case yaml_Unmarshal w data of
                     Inl err \<Rightarrow>
                       ([EvUserHomeDir, EvReadFile configPath, EvYamlUnmarshal data],
                        Inl (Errorf_w ''failed to parse config file: '' err))
                   | Inr config \<Rightarrow>
                       if APIToken config = ''''
                       then ([EvUserHomeDir, EvReadFile configPath, EvYamlUnmarshal data],
                             Inl (Errorf ''API token not found in config file''))
                       else ([EvUserHomeDir, EvReadFile configPath, EvYamlUnmarshal data],
                             Inr (APIToken config)))))"

section \<open>translate\<close>

text \<open>
  The same in the three variants. \<open>messages\<close> and \<open>chatRequest\<close> are the two local
  values of these names; the content of the user message is
  \<^verbatim>\<open>fmt.Sprintf("Translate this from %s to %s: %s", fromLang, toLang, text)\<close>.
\<close>

definition messages :: "string \<Rightarrow> string \<Rightarrow> string \<Rightarrow> Message list" where
  "messages fromLang toLang text =
     [\<lparr>Role = ''system'',
       Content = ''You are a translator that only gives the translated text''\<rparr>,
      \<lparr>Role = ''user'',
       Content = ''Translate this from '' @ fromLang @ '' to '' @ toLang @ '': '' @ text\<rparr>]"

definition chatRequest :: "string \<Rightarrow> string \<Rightarrow> string \<Rightarrow> ChatRequest" where
  "chatRequest fromLang toLang text =
     \<lparr>Model = ''gpt-4o-mini'', Messages = messages fromLang toLang text\<rparr>"

definition url :: string where
  "url = ''https://api.openai.com/v1/chat/completions''"

text \<open>The result is the calls made and the pair \<^verbatim>\<open>(string, error)\<close> returned, \<open>Inl\<close> the
  error. The deferred \<^verbatim>\<open>resp.Body.Close()\<close> has no part in either and is left out.\<close>

definition translate ::
  "world \<Rightarrow> string \<Rightarrow> string \<Rightarrow> string \<Rightarrow> string \<Rightarrow> bool \<Rightarrow> event list \<times> (goerror + string)" where
  "translate w apiKey fromLang toLang text verbose =
     (case json_Marshal w (chatRequest fromLang toLang text) of
        Inl err \<Rightarrow> ([], Inl (Errorf_w ''failed to marshal JSON payload: '' err))
      | Inr jsonPayload \<Rightarrow>
          let ev1 = (if verbose then [EvLog ''Request Payload: %s\<newline>'' [S jsonPayload]] else [])
          in (case http_NewRequest w ''POST'' url jsonPayload of
                Inl err \<Rightarrow> (ev1, Inl (Errorf_w ''failed to create new HTTP request: '' err))
              | Inr req0 \<Rightarrow>
                  let req = Header_Set (Header_Set req0 ''Content-Type'' ''application/json'')
                              ''Authorization'' (''Bearer '' @ apiKey);
                      ev2 = ev1 @ [EvClientDo req]
                  in (case client_Do w req of
                        Inl err \<Rightarrow> (ev2, Inl (Errorf_w ''failed to execute HTTP request: '' err))
                      | Inr resp \<Rightarrow>
                          if StatusCode resp \<noteq> http_StatusOK then
                            let body = fst (resp_Body resp)
                            in (ev2 @
                                (if verbose
                                 then [EvLog ''Response Status: %s\<newline>'' [S (Status resp)],
                                       EvLog ''Response Headers: %v\<newline>'' [H (resp_Header resp)],
                                       EvLog ''Response Body: %s\<newline>'' [S body]]
                                 else []),
                                Inl (Errorf_d ''unexpected status code from OpenAI API: ''
                                       (StatusCode resp)))
                          else
                            (case resp_Body resp of
                               (body, Some err) \<Rightarrow>
                                 (ev2, Inl (Errorf_w ''failed to read response body: '' err))
                             | (body, None) \<Rightarrow>
                                 let ev3 = ev2 @ [EvJsonUnmarshal body]
                                 in (case json_Unmarshal w body of
                                       Inl err \<Rightarrow>
                                         (ev3, Inl (Errorf_w ''failed to unmarshal response JSON: '' err))
                                     | Inr chatResponse \<Rightarrow>
                                         if error_Message (Error chatResponse) \<noteq> '''' then
                                           (ev3 @
                                            (if verbose
                                             then [EvLog ''OpenAI API Error: %s (Type: %s)\<newline>''
                                                     [S (error_Message (Error chatResponse)),
                                                      S (error_Type (Error chatResponse))]]
                                             else []),
                                            Inl (ErrorsNew (error_Message (Error chatResponse))))
                                         else if length (Choices chatResponse) > 0 then
                                           (ev3,
                                            Inr (strings_TrimSpace
                                                   (Content (choice_Message (Choices chatResponse ! 0)))))
                                         else
                                           (ev3, Inl (ErrorsNew ''no translation found in response'')))))))"

section \<open>main\<close>

text \<open>
  The credential block of \<^verbatim>\<open>main\<close>, the same in the three variants: the value of the
  local \<^verbatim>\<open>token\<close>, or \<open>None\<close> when \<^verbatim>\<open>log.Fatalf\<close> has ended the process.
\<close>

definition token :: "world \<Rightarrow> string \<Rightarrow> event list \<times> string option" where
  "token w apiToken =
     (if apiToken = '''' then
        (case loadTokenFromConfig w of
           (ev, Inl err) \<Rightarrow> (ev @ log_Fatalf ''Failed to load API token: %v'' [E err], None)
         | (ev, Inr tok) \<Rightarrow> (ev, Some tok))
      else ([], Some apiToken))"

text \<open>
  The input block of \<^verbatim>\<open>src/main.go\<close>: the value of the local \<^verbatim>\<open>textToTranslate\<close>,
  which is \<^verbatim>\<open>flag.Arg(0)\<close>, or \<open>None\<close> when \<^verbatim>\<open>log.Fatal\<close> has ended the process.
\<close>

definition textToTranslate_v1 :: "string list \<Rightarrow> event list \<times> string option" where
  "textToTranslate_v1 args =
     (if length args = 0 then (log_Fatalf ''No text provided for translation.'' [], None)
      else ([], Some (args ! 0)))"

text \<open>
  The input block of the two variants of \<^verbatim>\<open>part_000\<close>. \<open>scanLoop\<close> is the loop that
  appends each line the scanner yields to \<^verbatim>\<open>input\<close>.
\<close>

fun scanLoop :: "string list \<Rightarrow> string list \<Rightarrow> string list" where
  "scanLoop [] input = input"
| "scanLoop (t # ts) input = scanLoop ts (input @ [t])"

definition textToTranslate :: "world \<Rightarrow> string list \<Rightarrow> event list \<times> string option" where
  "textToTranslate w args =
     (if length args > 0 then ([], Some (strings_Join args '' ''))
      else
        (case Stdin_Stat w of
           Inl err \<Rightarrow>
             ([EvStdinStat, EvPrintln [S ''Error reading stdin:'', E err], EvExit 1], None)
         | Inr mode \<Rightarrow>
             if mode AND os_ModeCharDevice = 0
             then ([EvStdinStat, EvStdinScan],
                   Some (strings_Join (scanLoop (Stdin_tokens w) []) '' ''))
             else ([EvStdinStat], Some '''')))"

text \<open>The command line after \<^verbatim>\<open>flag.Parse()\<close>: the flag variables and \<^verbatim>\<open>flag.Args()\<close>.
  Only the third variant has the \<open>version\<close> flag. A command line that \<^verbatim>\<open>flag.Parse()\<close>
  rejects ends the process there and is no input of \<open>main\<close> below.\<close>

record flags =
  fromLang :: string
  toLang :: string
  apiToken :: string
  copyOutput :: bool
  verbose :: bool
  version :: bool
  args :: "string list"

text \<open>\<^verbatim>\<open>main\<close> of \<^verbatim>\<open>src/main.go\<close>.\<close>

definition main_v1 :: "world \<Rightarrow> flags \<Rightarrow> event list" where
  "main_v1 w fl =
     (if verbose fl then [EvLog ''Verbose mode enabled.'' []] else []) @
     (case textToTranslate_v1 (args fl) of
        (ev0, None) \<Rightarrow> ev0
      | (ev0, Some text) \<Rightarrow> ev0 @
          (case token w (apiToken fl) of
             (ev1, None) \<Rightarrow> ev1
           | (ev1, Some tok) \<Rightarrow> ev1 @
               (if verbose fl then [EvLog ''OpenAI Token: %s\<newline>'' [S tok]] else []) @
               (case translate w tok (fromLang fl) (toLang fl) text (verbose fl) of
                  (ev2, Inl err) \<Rightarrow> ev2 @ log_Fatalf ''Translation failed: %v'' [E err]
                | (ev2, Inr translatedText) \<Rightarrow> ev2 @ [EvPrintln [S translatedText]] @
                    (if copyOutput fl then
                       (case clipboard_WriteAll w translatedText of
                          Some err \<Rightarrow>
                            EvClipboard translatedText #
                            log_Fatalf ''Failed to copy translation to clipboard: %v'' [E err]
                        | None \<Rightarrow>
                            [EvClipboard translatedText,
                             EvPrintln [S ''(Translation copied to clipboard)'']])
                     else []))))"

text \<open>\<^verbatim>\<open>main\<close> of the first file of \<^verbatim>\<open>part_000\<close>.\<close>

definition main_v2 :: "world \<Rightarrow> flags \<Rightarrow> event list" where
  "main_v2 w fl =
     (if verbose fl then [EvLog ''Verbose mode enabled.'' []] else []) @
     (case textToTranslate w (args fl) of
        (ev0, None) \<Rightarrow> ev0
      | (ev0, Some text) \<Rightarrow> ev0 @
          (case token w (apiToken fl) of
             (ev1, None) \<Rightarrow> ev1
           | (ev1, Some tok) \<Rightarrow> ev1 @
               (if verbose fl then [EvLog ''OpenAI Token: %s\<newline>'' [S tok]] else []) @
               (case translate w tok (fromLang fl) (toLang fl) text (verbose fl) of
                  (ev2, Inl err) \<Rightarrow> ev2 @ log_Fatalf ''Translation failed: %v'' [E err]
                | (ev2, Inr translatedText) \<Rightarrow> ev2 @ [EvPrintln [S translatedText]] @
                    (if copyOutput fl then
                       (case clipboard_WriteAll w translatedText of
                          Some err \<Rightarrow>
                            EvClipboard translatedText #
                            log_Fatalf ''Failed to copy translation to clipboard: %v'' [E err]
                        | None \<Rightarrow> [EvClipboard translatedText])
                     else []))))"

text \<open>
  The second file of \<^verbatim>\<open>part_000\<close>: the usage text, and \<^verbatim>\<open>main\<close>. The raw string
  \<^verbatim>\<open>msg\<close> starts with a line break and every line of it ends with one. The constant
  \<^verbatim>\<open>Version\<close> is declared in no file at hand and is a parameter.
\<close>

definition usage_msg :: string where
  \<open>usage_msg = concat (map (\<lambda>l. l @ ''\<newline>'')
     ['''',
      ''Usage:'',
      ''  translate-cli [options] <text>'',
      '''',
      ''Options:'',
      ''  -f, -from <language>      Source language (default: en)'',
      ''  -t, -to   <language>      Target language (default: en)'',
      ''  -a        <api token>     OpenAI API token (default: ~/.config/openai/secret.yml)'',
      ''  -c, -copy                 Copy output to clipboard (default: true)'',
      ''  -verbose                  Enable verbose mode (default: false)'',
      ''  -v, -version              Show version'',
      ''  -help                     Show this help message'',
      '''',
      ''Examples:'',
      ''  translate-cli -f en -t es "Hello, how are you?"'',
      ''  echo "Hello, how are you?" | translate-cli -f en -t es'',
      '''',
      ''OpenAI API Token:'',
      ''  You can obtain an OpenAI API token from https://platform.openai.com/api-keys.'',
      ''  '',
      ''  The config file should be a YAML file with the following structure:'',
      ''    api_token: YOUR_API_TOKEN'',
      '''',
      ''  And should be located at ~/.config/openai/secret.yml''])\<close>

definition usage :: "event list" where
  "usage = [EvPrintln [S usage_msg]]"

definition main_v3 :: "string \<Rightarrow> world \<Rightarrow> flags \<Rightarrow> event list" where
  "main_v3 Version w fl =
     (if version fl then [EvPrintln [S ''Version:'', S Version], EvExit 0]
      else
        (if verbose fl then [EvLog ''Verbose mode enabled.'' []] else []) @
        (case textToTranslate w (args fl) of
           (ev0, None) \<Rightarrow> ev0
         | (ev0, Some text) \<Rightarrow> ev0 @
             (case token w (apiToken fl) of
                (ev1, None) \<Rightarrow> ev1
              | (ev1, Some tok) \<Rightarrow> ev1 @
                  (if verbose fl then [EvLog ''OpenAI Token: %s\<newline>'' [S tok]] else []) @
                  (case translate w tok (fromLang fl) (toLang fl) text (verbose fl) of
                     (ev2, Inl err) \<Rightarrow> ev2 @ log_Fatalf ''Translation failed: %v'' [E err]
                   | (ev2, Inr translatedText) \<Rightarrow> ev2 @ [EvPrintln [S translatedText]] @
                       (if copyOutput fl then
                          (case clipboard_WriteAll w translatedText of
                             Some err \<Rightarrow>
                               EvClipboard translatedText #
                               log_Fatalf ''Failed to copy translation to clipboard: %v'' [E err]
                           | None \<Rightarrow> [EvClipboard translatedText])
                        else [])))))"


section \<open>Reading a run\<close>

text \<open>Projections of the list of calls: the paths read, the requests sent, the bodies
  given to \<^verbatim>\<open>json.Unmarshal\<close>, the calls that consult the configuration, and the calls
  of the logger.\<close>

fun filesRead :: "event list \<Rightarrow> string list" where
  "filesRead [] = []"
| "filesRead (EvReadFile p # ev) = p # filesRead ev"
| "filesRead (e # ev) = filesRead ev"

fun requestsSent :: "event list \<Rightarrow> Request list" where
  "requestsSent [] = []"
| "requestsSent (EvClientDo req # ev) = req # requestsSent ev"
| "requestsSent (e # ev) = requestsSent ev"

fun parsedBodies :: "event list \<Rightarrow> string list" where
  "parsedBodies [] = []"
| "parsedBodies (EvJsonUnmarshal b # ev) = b # parsedBodies ev"
| "parsedBodies (e # ev) = parsedBodies ev"

fun isConfigCall :: "event \<Rightarrow> bool" where
  "isConfigCall EvUserHomeDir = True"
| "isConfigCall (EvReadFile p) = True"
| "isConfigCall (EvYamlUnmarshal d) = True"
| "isConfigCall e = False"

fun isLog :: "event \<Rightarrow> bool" where
  "isLog (EvLog format as) = True"
| "isLog e = False"

text \<open>The request \<^verbatim>\<open>translate\<close> hands to \<^verbatim>\<open>client.Do\<close> for a payload and a key.\<close>

definition theRequest :: "string \<Rightarrow> string \<Rightarrow> Request" where
  "theRequest payload apiKey =
     \<lparr>Method = ''POST'', URL = url, req_Body = payload,
      req_Header = [''Content-Type'' \<mapsto> [''application/json''],
                    ''Authorization'' \<mapsto> [''Bearer '' @ apiKey]]\<rparr>"

text \<open>
  \<open>answers w k f t x resp\<close>: in \<open>w\<close>, the request for \<open>f\<close>, \<open>t\<close>, \<open>x\<close> with the key \<open>k\<close> is
  built and sent, and the transport returns \<open>resp\<close>.
  \<open>parsed w resp cr\<close>: \<open>resp\<close> has status 200 and its body is read and parsed into \<open>cr\<close>.
\<close>

definition answers ::
  "world \<Rightarrow> string \<Rightarrow> string \<Rightarrow> string \<Rightarrow> string \<Rightarrow> Response \<Rightarrow> bool" where
  "answers w k f t x resp =
     (case json_Marshal w (chatRequest f t x) of
        Inl err \<Rightarrow> False
      | Inr payload \<Rightarrow>
          NewRequest_error w ''POST'' url = None \<and>
          client_Do w (theRequest payload k) = Inr resp)"

definition parsed :: "world \<Rightarrow> Response \<Rightarrow> ChatResponse \<Rightarrow> bool" where
  "parsed w resp cr =
     (StatusCode resp = 200 \<and> snd (resp_Body resp) = None \<and>
      json_Unmarshal w (fst (resp_Body resp)) = Inr cr)"

text \<open>\<open>contains s t\<close>: \<open>t\<close> occurs in \<open>s\<close>.\<close>

fun startsWith :: "string \<Rightarrow> string \<Rightarrow> bool" where
  "startsWith s [] = True"
| "startsWith [] (c # t) = False"
| "startsWith (d # s) (c # t) = (d = c \<and> startsWith s t)"

fun contains :: "string \<Rightarrow> string \<Rightarrow> bool" where
  "contains [] t = (t = [])"
| "contains (c # s) t = (startsWith (c # s) t \<or> contains s t)"

section \<open>Example environments\<close>

text \<open>
  A home directory with the configuration file in place, a terminal on standard input,
  and a server that answers 200 with one choice. \<^verbatim>\<open>json.Marshal\<close> is stood in for by
  the contents of the messages, one after the other.
\<close>

definition choice0 :: Choice where
  "choice0 = \<lparr>choice_Message = \<lparr>Role = ''assistant'', Content = ''  Hola mundo  ''\<rparr>\<rparr>"

definition cr_ok :: ChatResponse where
  "cr_ok = \<lparr>Choices = [choice0], Error = \<lparr>error_Message = '''', error_Type = ''''\<rparr>\<rparr>"

definition resp200 :: Response where
  "resp200 = \<lparr>StatusCode = 200, Status = ''200 OK'',
               resp_Header = Map.empty, resp_Body = (''body'', None)\<rparr>"

definition world_ok :: world where
  "world_ok =
     \<lparr>os_UserHomeDir = Inr ''/home/u'',
      os_ReadFile = (\<lambda>p. if p = ''/home/u/.config/openapi/secret.yml''
                          then Inr ''api_token: sk-file''
                          else Inl (ErrorsNew ''no such file or directory'')),
      yaml_Unmarshal = (\<lambda>d. if d = ''api_token: sk-file''
                             then Inr \<lparr>APIToken = ''sk-file''\<rparr>
                             else Inr \<lparr>APIToken = ''''\<rparr>),
      json_Marshal = (\<lambda>r. Inr (strings_Join (map Content (Messages r)) ''|'')),
      NewRequest_error = (\<lambda>m u. None),
      client_Do = (\<lambda>req. Inr resp200),
      json_Unmarshal = (\<lambda>b. Inr cr_ok),
      clipboard_WriteAll = (\<lambda>s. None),
      Stdin_Stat = Inr os_ModeCharDevice,
      Stdin_tokens = []\<rparr>"

text \<open>The same with an error object in the 200 answer, with no choice, with status 500,
  with an empty \<^verbatim>\<open>api_token\<close> field, and with an empty pipe on standard input.\<close>

definition cr_error :: ChatResponse where
  "cr_error =
     \<lparr>Choices = [choice0],
      Error = \<lparr>error_Message = ''rate limit exceeded'', error_Type = ''requests''\<rparr>\<rparr>"

definition world_error :: world where
  "world_error = world_ok\<lparr>json_Unmarshal := (\<lambda>b. Inr cr_error)\<rparr>"

definition cr_nochoice :: ChatResponse where
  "cr_nochoice = \<lparr>Choices = [], Error = \<lparr>error_Message = '''', error_Type = ''''\<rparr>\<rparr>"

definition world_nochoice :: world where
  "world_nochoice = world_ok\<lparr>json_Unmarshal := (\<lambda>b. Inr cr_nochoice)\<rparr>"

definition resp500 :: Response where
  "resp500 = \<lparr>StatusCode = 500, Status = ''500 Internal Server Error'',
               resp_Header = Map.empty, resp_Body = (''body'', None)\<rparr>"

definition world_500 :: world where
  "world_500 = world_ok\<lparr>client_Do := (\<lambda>req. Inr resp500)\<rparr>"

definition world_notoken :: world where
  "world_notoken = world_ok\<lparr>yaml_Unmarshal := (\<lambda>d. Inr \<lparr>APIToken = ''''\<rparr>)\<rparr>"

definition world_pipe :: world where
  "world_pipe = world_ok\<lparr>Stdin_Stat := Inr 0\<rparr>"

text \<open>Command lines: two words from English to Spanish with a token, and no text at all.\<close>

definition flags_hello :: flags where
  "flags_hello =
     \<lparr>fromLang = ''en'', toLang = ''es'', apiToken = ''sk-flag'', copyOutput = True,
      verbose = False, version = False, args = [''Hello'', ''world'']\<rparr>"

definition flags_notext :: flags where
  "flags_notext = flags_hello\<lparr>apiToken := '''', args := []\<rparr>"

section \<open>Lemmas on the projections and on the blocks of main\<close>

lemma filesRead_append: "filesRead (a @ b) = filesRead a @ filesRead b"
  by (induction a rule: filesRead.induct) simp_all

lemma requestsSent_append: "requestsSent (a @ b) = requestsSent a @ requestsSent b"
  by (induction a rule: requestsSent.induct) simp_all

lemma parsedBodies_append: "parsedBodies (a @ b) = parsedBodies a @ parsedBodies b"
  by (induction a rule: parsedBodies.induct) simp_all

lemma filesRead_config: "filesRead (filter isConfigCall ev) = filesRead ev"
  by (induction ev rule: filesRead.induct) simp_all

lemma scanLoop_append: "scanLoop ts input = input @ ts"
  by (induction ts arbitrary: input) simp_all

text \<open>\<open>strings_TrimSpace\<close> returns a part of the string that neither starts nor ends with
  white space; what is left out before it and after it is white space only.\<close>

lemma trimLeftSpace_ascii: "asciiSpace a \<Longrightarrow> trimLeftSpace (a # l) = trimLeftSpace l"
  by (cases "(a # l)" rule: trimLeftSpace.cases) simp_all

lemma trimLeftSpace_space2: "space2 a b \<Longrightarrow> trimLeftSpace (a # b # l) = trimLeftSpace l"
  by (cases l) (auto simp: space2_def asciiSpace_def)

lemma trimLeftSpace_space3: "space3 a b c \<Longrightarrow> trimLeftSpace (a # b # c # l) = trimLeftSpace l"
  by (auto simp: space3_def space2_def asciiSpace_def)

lemma trimLeftSpace_suffix: "\<exists>l. s = l @ trimLeftSpace s \<and> trimLeftSpace l = []"
proof (induction s rule: trimLeftSpace.induct)
  case (1 a b c s)
  show ?case
  proof (cases "asciiSpace a")
    case True
    with 1(1) obtain l where "b # c # s = l @ trimLeftSpace (b # c # s)" and "trimLeftSpace l = []"
      by blast
    then have "a # b # c # s = (a # l) @ trimLeftSpace (b # c # s)" and "trimLeftSpace (a # l) = []"
      using True by (simp_all add: trimLeftSpace_ascii)
    with True show ?thesis by (metis trimLeftSpace.simps(1))
  next
    case na: False
    show ?thesis
    proof (cases "space2 a b")
      case True
      with na 1(2) obtain l where "c # s = l @ trimLeftSpace (c # s)" and "trimLeftSpace l = []"
        by blast
      then have "a # b # c # s = (a # b # l) @ trimLeftSpace (c # s)" and "trimLeftSpace (a # b # l) = []"
        using True na by (simp_all add: trimLeftSpace_space2)
      with na True show ?thesis by (metis trimLeftSpace.simps(1))
    next
      case n2: False
      show ?thesis
      proof (cases "space3 a b c")
        case True
        with na n2 1(3) obtain l where "s = l @ trimLeftSpace s" and "trimLeftSpace l = []"
          by blast
        then have "a # b # c # s = (a # b # c # l) @ trimLeftSpace s" and "trimLeftSpace (a # b # c # l) = []"
          using True na n2 by (simp_all add: trimLeftSpace_space3)
        with na n2 True show ?thesis by (metis trimLeftSpace.simps(1))
      next
        case False
        with na n2 have "trimLeftSpace (a # b # c # s) = a # b # c # s" by simp
        then show ?thesis by (metis append_Nil trimLeftSpace.simps(4))
      qed
    qed
  qed
next
  case (2 a b)
  show ?case
  proof (cases "asciiSpace a")
    case True
    with 2 obtain l where "[b] = l @ trimLeftSpace [b]" and "trimLeftSpace l = []"
      by blast
    then have "[a, b] = (a # l) @ trimLeftSpace [b]" and "trimLeftSpace (a # l) = []"
      using True by (simp_all add: trimLeftSpace_ascii)
    with True show ?thesis by (metis trimLeftSpace.simps(2))
  next
    case na: False
    show ?thesis
    proof (cases "space2 a b")
      case True
      with na have "[a, b] = [a, b] @ trimLeftSpace [a, b]" and "trimLeftSpace [a, b] = []"
        by simp_all
      then show ?thesis by metis
    next
      case False
      with na have "trimLeftSpace [a, b] = [a, b]" by simp
      then show ?thesis by (metis append_Nil trimLeftSpace.simps(4))
    qed
  qed
next
  case (3 a)
  show ?case
  proof (cases "asciiSpace a")
    case True
    then have "[a] = [a] @ trimLeftSpace [a]" and "trimLeftSpace [a] = []" by simp_all
    then show ?thesis by metis
  next
    case False
    then have "trimLeftSpace [a] = [a]" by simp
    then show ?thesis by (metis append_Nil trimLeftSpace.simps(4))
  qed
next
  case 4
  show ?case by simp
qed

lemma trimLeftSpace_trimmed: "\<not> startsWithSpace (trimLeftSpace s)"
  by (induction s rule: trimLeftSpace.induct) simp_all

lemma trimRightSpace_rev_ascii: "asciiSpace a \<Longrightarrow> trimRightSpace_rev (a # l) = trimRightSpace_rev l"
  by (cases "(a # l)" rule: trimRightSpace_rev.cases) simp_all

lemma trimRightSpace_rev_space2: "space2 b a \<Longrightarrow> trimRightSpace_rev (a # b # l) = trimRightSpace_rev l"
  by (cases l) (auto simp: space2_def asciiSpace_def)

lemma trimRightSpace_rev_space3: "space3 c b a \<Longrightarrow> trimRightSpace_rev (a # b # c # l) = trimRightSpace_rev l"
  by (auto simp: space3_def space2_def asciiSpace_def)

lemma trimRightSpace_rev_suffix: "\<exists>l. s = l @ trimRightSpace_rev s \<and> trimRightSpace_rev l = []"
proof (induction s rule: trimRightSpace_rev.induct)
  case (1 a b c s)
  show ?case
  proof (cases "asciiSpace a")
    case True
    with 1(1) obtain l where "b # c # s = l @ trimRightSpace_rev (b # c # s)" and "trimRightSpace_rev l = []"
      by blast
    then have "a # b # c # s = (a # l) @ trimRightSpace_rev (b # c # s)" and "trimRightSpace_rev (a # l) = []"
      using True by (simp_all add: trimRightSpace_rev_ascii)
    with True show ?thesis by (metis trimRightSpace_rev.simps(1))
  next
    case na: False
    show ?thesis
    proof (cases "space2 b a")
      case True
      with na 1(2) obtain l where "c # s = l @ trimRightSpace_rev (c # s)" and "trimRightSpace_rev l = []"
        by blast
      then have "a # b # c # s = (a # b # l) @ trimRightSpace_rev (c # s)" and "trimRightSpace_rev (a # b # l) = []"
        using True na by (simp_all add: trimRightSpace_rev_space2)
      with na True show ?thesis by (metis trimRightSpace_rev.simps(1))
    next
      case n2: False
      show ?thesis
      proof (cases "space3 c b a")
        case True
        with na n2 1(3) obtain l where "s = l @ trimRightSpace_rev s" and "trimRightSpace_rev l = []"
          by blast
        then have "a # b # c # s = (a # b # c # l) @ trimRightSpace_rev s" and "trimRightSpace_rev (a # b # c # l) = []"
          using True na n2 by (simp_all add: trimRightSpace_rev_space3)
        with na n2 True show ?thesis by (metis trimRightSpace_rev.simps(1))
      next
        case False
        with na n2 have "trimRightSpace_rev (a # b # c # s) = a # b # c # s" by simp
        then show ?thesis by (metis append_Nil trimRightSpace_rev.simps(4))
      qed
    qed
  qed
next
  case (2 a b)
  show ?case
  proof (cases "asciiSpace a")
    case True
    with 2 obtain l where "[b] = l @ trimRightSpace_rev [b]" and "trimRightSpace_rev l = []"
      by blast
    then have "[a, b] = (a # l) @ trimRightSpace_rev [b]" and "trimRightSpace_rev (a # l) = []"
      using True by (simp_all add: trimRightSpace_rev_ascii)
    with True show ?thesis by (metis trimRightSpace_rev.simps(2))
  next
    case na: False
    show ?thesis
    proof (cases "space2 b a")
      case True
      with na have "[a, b] = [a, b] @ trimRightSpace_rev [a, b]" and "trimRightSpace_rev [a, b] = []"
        by simp_all
      then show ?thesis by metis
    next
      case False
      with na have "trimRightSpace_rev [a, b] = [a, b]" by simp
      then show ?thesis by (metis append_Nil trimRightSpace_rev.simps(4))
    qed
  qed
next
  case (3 a)
  show ?case
  proof (cases "asciiSpace a")
    case True
    then have "[a] = [a] @ trimRightSpace_rev [a]" and "trimRightSpace_rev [a] = []" by simp_all
    then show ?thesis by metis
  next
    case False
    then have "trimRightSpace_rev [a] = [a]" by simp
    then show ?thesis by (metis append_Nil trimRightSpace_rev.simps(4))
  qed
next
  case 4
  show ?case by simp
qed

lemma trimRightSpace_rev_trimmed: "\<not> endsWithSpace_rev (trimRightSpace_rev s)"
  by (induction s rule: trimRightSpace_rev.induct) simp_all

lemma startsWithSpace_prefix:
  assumes "\<not> startsWithSpace (p @ r)"
  shows "\<not> startsWithSpace p"
proof (cases p)
  case Nil
  then show ?thesis by simp
next
  case p1: (Cons a p')
  show ?thesis
  proof (cases p')
    case Nil
    with p1 assms show ?thesis
      by (cases r rule: startsWithSpace.cases) auto
  next
    case p2: (Cons b p'')
    show ?thesis
    proof (cases p'')
      case Nil
      with p1 p2 assms show ?thesis by (cases r) auto
    next
      case (Cons c p''')
      with p1 p2 assms show ?thesis by simp
    qed
  qed
qed

lemma strings_TrimSpace_trimmed:
  "\<not> startsWithSpace (strings_TrimSpace s) \<and> \<not> endsWithSpace (strings_TrimSpace s) \<and>
   (\<exists>l r. s = l @ strings_TrimSpace s @ r \<and> trimLeftSpace l = [] \<and>
           trimRightSpace_rev (rev r) = [])"
proof -
  obtain l where l: "s = l @ trimLeftSpace s" and ll: "trimLeftSpace l = []"
    using trimLeftSpace_suffix by blast
  obtain r' where "rev (trimLeftSpace s) = r' @ trimRightSpace_rev (rev (trimLeftSpace s))"
    and rr: "trimRightSpace_rev r' = []"
    using trimRightSpace_rev_suffix by blast
  then have "rev (rev (trimLeftSpace s)) = rev (r' @ trimRightSpace_rev (rev (trimLeftSpace s)))"
    by simp
  then have r: "trimLeftSpace s = strings_TrimSpace s @ rev r'"
    by (simp add: strings_TrimSpace_def)
  have 1: "\<not> startsWithSpace (strings_TrimSpace s)"
    using trimLeftSpace_trimmed [of s] r startsWithSpace_prefix [of "strings_TrimSpace s" "rev r'"]
    by simp
  have 2: "\<not> endsWithSpace (strings_TrimSpace s)"
    by (simp add: endsWithSpace_def strings_TrimSpace_def trimRightSpace_rev_trimmed)
  have 3: "trimLeftSpace l = []" "trimRightSpace_rev (rev (rev r')) = []"
    using ll rr by simp_all
  from l r have "s = l @ strings_TrimSpace s @ rev r'" by simp
  with 1 2 3 show ?thesis by blast
qed

lemma strings_TrimSpace_example: "strings_TrimSpace ''  Hola mundo  '' = ''Hola mundo''"
  by (simp add: strings_TrimSpace_def asciiSpace_def space2_def space3_def)

text \<open>The text read from a pipe is its lines joined by single spaces.\<close>

lemma textToTranslate_pipe:
  assumes "Stdin_Stat w = Inr mode" and "mode AND os_ModeCharDevice = 0"
  shows "textToTranslate w [] =
           ([EvStdinStat, EvStdinScan], Some (strings_Join (Stdin_tokens w) '' ''))"
  using assms by (simp add: textToTranslate_def scanLoop_append)

text \<open>The four ways a call of \<open>translate\<close> can go up to the answer of the transport.\<close>

lemma translate_cases [case_names marshal_error request_error transport_error answered]:
  obtains
    err where "json_Marshal w (chatRequest f t x) = Inl err"
  | payload err where "json_Marshal w (chatRequest f t x) = Inr payload"
      and "NewRequest_error w ''POST'' url = Some err"
  | payload err where "json_Marshal w (chatRequest f t x) = Inr payload"
      and "NewRequest_error w ''POST'' url = None"
      and "client_Do w (theRequest payload k) = Inl err"
  | payload resp where "json_Marshal w (chatRequest f t x) = Inr payload"
      and "NewRequest_error w ''POST'' url = None"
      and "client_Do w (theRequest payload k) = Inr resp"
proof (cases "json_Marshal w (chatRequest f t x)")
  case (Inl err)
  then show ?thesis using that(1) by blast
next
  case m: (Inr payload)
  show ?thesis
  proof (cases "NewRequest_error w ''POST'' url")
    case (Some err)
    with m show ?thesis using that(2) by blast
  next
    case n: None
    show ?thesis
    proof (cases "client_Do w (theRequest payload k)")
      case (Inl err)
      with m n show ?thesis using that(3) by blast
    next
      case (Inr resp)
      with m n show ?thesis using that(4) by blast
    qed
  qed
qed

lemma translate_marshal_error:
  assumes "json_Marshal w (chatRequest f t x) = Inl err"
  shows "translate w k f t x v = ([], Inl (Errorf_w ''failed to marshal JSON payload: '' err))"
  using assms by (simp add: translate_def)

lemma translate_request_error:
  assumes "json_Marshal w (chatRequest f t x) = Inr payload"
    and "NewRequest_error w ''POST'' url = Some err"
  shows "translate w k f t x v =
           (if v then [EvLog ''Request Payload: %s\<newline>'' [S payload]] else [],
            Inl (Errorf_w ''failed to create new HTTP request: '' err))"
  using assms by (simp add: translate_def http_NewRequest_def)

lemma translate_transport_error:
  assumes "json_Marshal w (chatRequest f t x) = Inr payload"
    and "NewRequest_error w ''POST'' url = None"
    and "client_Do w (theRequest payload k) = Inl err"
  shows "translate w k f t x v =
           ((if v then [EvLog ''Request Payload: %s\<newline>'' [S payload]] else []) @
            [EvClientDo (theRequest payload k)],
            Inl (Errorf_w ''failed to execute HTTP request: '' err))"
  using assms
  by (simp add: translate_def http_NewRequest_def Header_Set_def theRequest_def)

lemma translate_answered:
  assumes "json_Marshal w (chatRequest f t x) = Inr payload"
    and "NewRequest_error w ''POST'' url = None"
    and "client_Do w (theRequest payload k) = Inr resp"
  shows "translate w k f t x v =
    (let ev2 = (if v then [EvLog ''Request Payload: %s\<newline>'' [S payload]] else []) @
               [EvClientDo (theRequest payload k)]
     in if StatusCode resp \<noteq> 200 then
          (ev2 @
           (if v
            then [EvLog ''Response Status: %s\<newline>'' [S (Status resp)],
                  EvLog ''Response Headers: %v\<newline>'' [H (resp_Header resp)],
                  EvLog ''Response Body: %s\<newline>'' [S (fst (resp_Body resp))]]
            else []),
           Inl (Errorf_d ''unexpected status code from OpenAI API: '' (StatusCode resp)))
        else
          (case snd (resp_Body resp) of
             Some err \<Rightarrow> (ev2, Inl (Errorf_w ''failed to read response body: '' err))
           | None \<Rightarrow>
               (case json_Unmarshal w (fst (resp_Body resp)) of
                  Inl err \<Rightarrow>
                    (ev2 @ [EvJsonUnmarshal (fst (resp_Body resp))],
                     Inl (Errorf_w ''failed to unmarshal response JSON: '' err))
                | Inr cr \<Rightarrow>
                    if error_Message (Error cr) \<noteq> '''' then
                      (ev2 @ [EvJsonUnmarshal (fst (resp_Body resp))] @
                       (if v
                        then [EvLog ''OpenAI API Error: %s (Type: %s)\<newline>''
                                [S (error_Message (Error cr)), S (error_Type (Error cr))]]
                        else []),
                       Inl (ErrorsNew (error_Message (Error cr))))
                    else if Choices cr \<noteq> [] then
                      (ev2 @ [EvJsonUnmarshal (fst (resp_Body resp))],
                       Inr (strings_TrimSpace (Content (choice_Message (Choices cr ! 0)))))
                    else
                      (ev2 @ [EvJsonUnmarshal (fst (resp_Body resp))],
                       Inl (ErrorsNew ''no translation found in response'')))))"
  using assms
  by (simp add: translate_def http_NewRequest_def Header_Set_def theRequest_def
        http_StatusOK_def Let_def split: prod.splits option.splits sum.splits)

lemma answersE:
  assumes "answers w k f t x resp"
  obtains payload where "json_Marshal w (chatRequest f t x) = Inr payload"
    and "NewRequest_error w ''POST'' url = None"
    and "client_Do w (theRequest payload k) = Inr resp"
  using assms by (auto simp: answers_def split: sum.splits)

text \<open>What \<open>translate\<close> calls: nothing of the configuration, and at most one request.\<close>

lemma translate_config: "filter isConfigCall (fst (translate w k f t x v)) = []"
proof (cases rule: translate_cases [where w = w and f = f and t = t and x = x and k = k])
  case (marshal_error err)
  then show ?thesis by (simp add: translate_marshal_error)
next
  case (request_error payload err)
  then show ?thesis by (simp add: translate_request_error)
next
  case (transport_error payload err)
  then show ?thesis by (simp add: translate_transport_error)
next
  case (answered payload resp)
  then show ?thesis
    by (simp add: translate_answered Let_def split: option.splits sum.splits)
qed

lemma translate_requests:
  "requestsSent (fst (translate w k f t x v)) =
     (case json_Marshal w (chatRequest f t x) of
        Inl err \<Rightarrow> []
      | Inr payload \<Rightarrow>
          (case NewRequest_error w ''POST'' url of
             Some err \<Rightarrow> []
           | None \<Rightarrow> [theRequest payload k]))"
proof (cases rule: translate_cases [where w = w and f = f and t = t and x = x and k = k])
  case (marshal_error err)
  then show ?thesis by (simp add: translate_marshal_error)
next
  case (request_error payload err)
  then show ?thesis by (simp add: translate_request_error)
next
  case (transport_error payload err)
  then show ?thesis by (simp add: translate_transport_error requestsSent_append)
next
  case (answered payload resp)
  then show ?thesis
    by (simp add: translate_answered Let_def requestsSent_append split: option.splits sum.splits)
qed

lemma token_requests: "requestsSent (fst (token w a)) = []"
  by (simp add: token_def loadTokenFromConfig_def log_Fatalf_def Let_def requestsSent_append
        split: sum.splits prod.splits)

lemma textToTranslate_requests: "requestsSent (fst (textToTranslate w as)) = []"
  by (simp add: textToTranslate_def split: sum.splits)

lemma textToTranslate_config: "filter isConfigCall (fst (textToTranslate w as)) = []"
  by (simp add: textToTranslate_def split: sum.splits)

text \<open>What each \<open>main\<close> calls, in terms of its blocks.\<close>

lemma main_v1_config:
  "filter isConfigCall (main_v1 w fl) =
     (if args fl = [] then [] else filter isConfigCall (fst (token w (apiToken fl))))"
  by (simp add: main_v1_def textToTranslate_v1_def log_Fatalf_def translate_config
        split_beta split: option.splits sum.splits)

lemma main_v2_config:
  "filter isConfigCall (main_v2 w fl) =
     (case snd (textToTranslate w (args fl)) of
        None \<Rightarrow> []
      | Some text \<Rightarrow> filter isConfigCall (fst (token w (apiToken fl))))"
  using textToTranslate_config [of w "args fl"]
  by (simp add: main_v2_def log_Fatalf_def translate_config
        split_beta split: option.splits sum.splits)

lemma main_v3_config:
  "filter isConfigCall (main_v3 ver w fl) =
     (if version fl then []
      else (case snd (textToTranslate w (args fl)) of
              None \<Rightarrow> []
            | Some text \<Rightarrow> filter isConfigCall (fst (token w (apiToken fl)))))"
  using textToTranslate_config [of w "args fl"]
  by (simp add: main_v3_def log_Fatalf_def translate_config
        split_beta split: option.splits sum.splits)

lemma main_v1_requests:
  "requestsSent (main_v1 w fl) =
     (if args fl = [] then []
      else (case snd (token w (apiToken fl)) of
              None \<Rightarrow> []
            | Some tok \<Rightarrow>
                requestsSent (fst (translate w tok (fromLang fl) (toLang fl) (args fl ! 0)
                                     (verbose fl)))))"
  using token_requests [of w "apiToken fl"]
  by (simp add: main_v1_def textToTranslate_v1_def log_Fatalf_def requestsSent_append
        split_beta split: option.splits sum.splits)

lemma main_v2_requests:
  "requestsSent (main_v2 w fl) =
     (case snd (textToTranslate w (args fl)) of
        None \<Rightarrow> []
      | Some text \<Rightarrow>
          (case snd (token w (apiToken fl)) of
             None \<Rightarrow> []
           | Some tok \<Rightarrow>
               requestsSent (fst (translate w tok (fromLang fl) (toLang fl) text (verbose fl)))))"
  using token_requests [of w "apiToken fl"] textToTranslate_requests [of w "args fl"]
  by (simp add: main_v2_def log_Fatalf_def requestsSent_append
        split_beta split: option.splits sum.splits)

lemma main_v3_requests:
  "requestsSent (main_v3 ver w fl) =
     (if version fl then []
      else (case snd (textToTranslate w (args fl)) of
              None \<Rightarrow> []
            | Some text \<Rightarrow>
                (case snd (token w (apiToken fl)) of
                   None \<Rightarrow> []
                 | Some tok \<Rightarrow>
                     requestsSent
                       (fst (translate w tok (fromLang fl) (toLang fl) text (verbose fl))))))"
  using token_requests [of w "apiToken fl"] textToTranslate_requests [of w "args fl"]
  by (simp add: main_v3_def log_Fatalf_def requestsSent_append
        split_beta split: option.splits sum.splits)

text \<open>\<^verbatim>\<open>filepath.Join\<close> on the elements of the configuration path.\<close>

lemma strings_Join_snoc:
  "ys \<noteq> [] \<Longrightarrow> strings_Join (ys @ [z]) sep = strings_Join ys sep @ sep @ z"
  by (induction ys sep rule: strings_Join.induct) simp_all

lemma splitSep_not_Nil: "splitSep s \<noteq> []"
  by (induction s) (simp_all split: list.splits)

lemma splitSep_append: "splitSep (h @ CHR ''/'' # r) = splitSep h @ splitSep r"
proof (induction h)
  case Nil
  show ?case by simp
next
  case (Cons c h)
  obtain y ys where "splitSep h = y # ys"
    using splitSep_not_Nil [of h] by (cases "splitSep h") auto
  with Cons show ?case by simp
qed

text \<open>\<open>Clean\<close> keeps three ordinary elements at the end of a path as they are.\<close>

lemma Clean_config_path:
  assumes "h \<noteq> []" and "d \<noteq> []" and "d \<noteq> ''.''" and "d \<noteq> ''..''" and "splitSep d = [d]"
  shows "Clean (h @ ''/.config/'' @ d @ ''/secret.yml'') =
           (if hd h = CHR ''/'' then ''/'' else []) @
           strings_Join (rev (foldl (cleanStep (hd h = CHR ''/'')) [] (splitSep h)) @ [''.config''])
             ''/'' @
           ''/'' @ d @ ''/secret.yml''"
proof -
  let ?S = "foldl (cleanStep (hd h = CHR ''/'')) [] (splitSep h)"
  have split: "splitSep (h @ ''/.config/'' @ d @ ''/secret.yml'') =
                 splitSep h @ [''.config'', d, ''secret.yml'']"
  proof -
    have "splitSep (d @ CHR ''/'' # ''secret.yml'') = [d, ''secret.yml'']"
      using assms(5) by (simp only: splitSep_append) simp
    then have "splitSep (''.config'' @ CHR ''/'' # (d @ CHR ''/'' # ''secret.yml'')) =
                 [''.config'', d, ''secret.yml'']"
      by (simp only: splitSep_append) simp
    then have "splitSep (h @ CHR ''/'' # (''.config'' @ CHR ''/'' # (d @ CHR ''/'' # ''secret.yml''))) =
                 splitSep h @ [''.config'', d, ''secret.yml'']"
      by (simp only: splitSep_append)
    then show ?thesis by simp
  qed
  have fold: "foldl (cleanStep (hd h = CHR ''/'')) [] (splitSep h @ [''.config'', d, ''secret.yml'']) =
                ''secret.yml'' # d # ''.config'' # ?S"
    using assms(2-4) by (simp add: cleanStep_def)
  have join: "strings_Join (rev ?S @ [''.config'', d, ''secret.yml'']) ''/'' =
                strings_Join (rev ?S @ [''.config'']) ''/'' @ ''/'' @ d @ ''/secret.yml''"
    using strings_Join_snoc [of "rev ?S @ [''.config'', d]" "''secret.yml''" "''/''"]
      strings_Join_snoc [of "rev ?S @ [''.config'']" d "''/''"]
    by simp
  have hd: "hd (h @ ''/.config/'' @ d @ ''/secret.yml'') = hd h"
    using assms(1) by simp
  have ne: "h @ ''/.config/'' @ d @ ''/secret.yml'' \<noteq> []"
    using assms(1) by simp
  show ?thesis
  proof (cases "hd h = CHR ''/''")
    case True
    with ne join show ?thesis
      unfolding Clean_def Let_def hd split fold by simp
  next
    case False
    with ne join show ?thesis
      unfolding Clean_def Let_def hd split fold by simp
  qed
qed

lemma filepath_Join_config_path:
  assumes "h \<noteq> []" and "d \<noteq> []" and "d \<noteq> ''.''" and "d \<noteq> ''..''" and "splitSep d = [d]"
  shows "filepath_Join [h, ''.config'', d, ''secret.yml''] =
           (if hd h = CHR ''/'' then ''/'' else []) @
           strings_Join (rev (foldl (cleanStep (hd h = CHR ''/'')) [] (splitSep h)) @ [''.config''])
             ''/'' @
           ''/'' @ d @ ''/secret.yml''"
proof -
  have "filepath_Join [h, ''.config'', d, ''secret.yml''] =
          Clean (h @ ''/.config/'' @ d @ ''/secret.yml'')"
    using assms(1) by (simp add: filepath_Join_def)
  then show ?thesis
    using Clean_config_path [OF assms] by simp
qed

lemma openai_is_not_openapi:
  "filepath_Join [home, ''.config'', ''openai'', ''secret.yml''] \<noteq>
   filepath_Join [home, ''.config'', ''openapi'', ''secret.yml'']"
proof (cases "home = []")
  case True
  then show ?thesis
    by (simp add: filepath_Join_def Clean_def cleanStep_def)
next
  case False
  then show ?thesis
    by (simp add: filepath_Join_config_path)
qed

lemma filepath_Join_clean_home:
  assumes "Clean home = home" and "home \<noteq> ''/''" and "home \<noteq> ''.''"
  shows "filepath_Join [home, ''.config'', ''openapi'', ''secret.yml''] =
           home @ ''/.config/openapi/secret.yml''"
proof -
  let ?S = "foldl (cleanStep (hd home = CHR ''/'')) [] (splitSep home)"
  have ne: "home \<noteq> []"
    using assms(1,3) by (auto simp: Clean_def)
  have home: "home = (if hd home = CHR ''/'' then ''/'' else []) @ strings_Join (rev ?S) ''/''"
    using assms ne by (auto simp: Clean_def Let_def split: if_splits)
  have "rev ?S \<noteq> []"
  proof
    assume "rev ?S = []"
    with assms ne show False by (auto simp: Clean_def Let_def split: if_splits)
  qed
  then have "strings_Join (rev ?S @ [''.config'']) ''/'' = strings_Join (rev ?S) ''/'' @ ''/.config''"
    by (simp add: strings_Join_snoc)
  then have "filepath_Join [home, ''.config'', ''openapi'', ''secret.yml''] =
               ((if hd home = CHR ''/'' then ''/'' else []) @ strings_Join (rev ?S) ''/'') @
               ''/.config/openapi/secret.yml''"
    using ne by (simp add: filepath_Join_config_path)
  with home show ?thesis by simp
qed

lemma loadTokenFromConfig_files:
  "filesRead (fst (loadTokenFromConfig w)) =
     (case os_UserHomeDir w of
        Inl err \<Rightarrow> []
      | Inr home \<Rightarrow> [filepath_Join [home, ''.config'', ''openapi'', ''secret.yml'']])"
  by (simp add: loadTokenFromConfig_def Let_def split: sum.splits)

lemma token_files:
  "filesRead (fst (token w a)) = (if a = '''' then filesRead (fst (loadTokenFromConfig w)) else [])"
  by (simp add: token_def log_Fatalf_def filesRead_append split_beta split: sum.splits)

lemma main_files:
  "set (filesRead (main_v1 w fl)) \<subseteq> set (filesRead (fst (loadTokenFromConfig w)))"
  "set (filesRead (main_v2 w fl)) \<subseteq> set (filesRead (fst (loadTokenFromConfig w)))"
  "set (filesRead (main_v3 ver w fl)) \<subseteq> set (filesRead (fst (loadTokenFromConfig w)))"
  using filesRead_config [of "main_v1 w fl"] filesRead_config [of "main_v2 w fl"]
    filesRead_config [of "main_v3 ver w fl"] filesRead_config [of "fst (token w (apiToken fl))"]
  by (simp_all add: main_v1_config main_v2_config main_v3_config token_files
        split: option.splits if_splits)

text \<open>The definitions a run of the program in the first example environment unfolds.\<close>

lemmas example_defs =
  world_ok_def flags_hello_def flags_notext_def resp200_def cr_ok_def choice0_def

lemmas program_defs =
  main_v1_def main_v2_def main_v3_def textToTranslate_v1_def textToTranslate_def token_def
  translate_def loadTokenFromConfig_def chatRequest_def messages_def http_NewRequest_def
  Header_Set_def http_StatusOK_def log_Fatalf_def os_ModeCharDevice_def url_def
  filepath_Join_def Clean_def cleanStep_def strings_TrimSpace_def asciiSpace_def space2_def
  space3_def theRequest_def

section \<open>Credential resolution\<close>

text \<open>
  C1. When the token flag is not empty, the credential block of \<open>main\<close> yields the flag
  value as it is and makes no call at all, so in none of the three variants is the home
  directory looked up or the configuration file read or parsed, and every request sent
  carries the flag value as its bearer token. Read the other way round: the
  configuration is consulted only when the flag value is the empty string.
\<close>

theorem token_flag_precedence:
  assumes "apiToken fl \<noteq> ''''"
  shows "token w (apiToken fl) = ([], Some (apiToken fl)) \<and>
         filter isConfigCall (main_v1 w fl) = [] \<and>
         filter isConfigCall (main_v2 w fl) = [] \<and>
         filter isConfigCall (main_v3 ver w fl) = [] \<and>
         (\<forall>req \<in> set (requestsSent (main_v1 w fl)) \<union> set (requestsSent (main_v2 w fl)) \<union>
                   set (requestsSent (main_v3 ver w fl)).
            req_Header req ''Authorization'' = Some [''Bearer '' @ apiToken fl])"
proof -
  have tok: "token w (apiToken fl) = ([], Some (apiToken fl))"
    using assms by (simp add: token_def)
  have auth: "req_Header req ''Authorization'' = Some [''Bearer '' @ apiToken fl]"
    if "req \<in> set (requestsSent (fst (translate w (apiToken fl) f t x v)))" for req f t x v
    using that
    by (auto simp: translate_requests theRequest_def split: sum.splits option.splits)
  have c1: "filter isConfigCall (main_v1 w fl) = []"
    by (simp add: main_v1_config tok)
  have c2: "filter isConfigCall (main_v2 w fl) = []"
    by (simp add: main_v2_config tok split: option.splits)
  have c3: "filter isConfigCall (main_v3 ver w fl) = []"
    by (simp add: main_v3_config tok split: option.splits)
  have r1: "req_Header req ''Authorization'' = Some [''Bearer '' @ apiToken fl]"
    if "req \<in> set (requestsSent (main_v1 w fl))" for req
    using that auth by (auto simp: main_v1_requests tok split: if_splits)
  have r2: "req_Header req ''Authorization'' = Some [''Bearer '' @ apiToken fl]"
    if "req \<in> set (requestsSent (main_v2 w fl))" for req
    using that auth by (auto simp: main_v2_requests tok split: option.splits)
  have r3: "req_Header req ''Authorization'' = Some [''Bearer '' @ apiToken fl]"
    if "req \<in> set (requestsSent (main_v3 ver w fl))" for req
    using that auth by (auto simp: main_v3_requests tok split: option.splits if_splits)
  from tok c1 c2 c3 r1 r2 r3 show ?thesis by blast
qed

theorem token_flag_precedence_witness:
  "apiToken flags_hello \<noteq> '''' \<and>
   token world_ok (apiToken flags_hello) = ([], Some ''sk-flag'') \<and>
   filter isConfigCall (main_v1 world_ok flags_hello) = [] \<and>
   filter isConfigCall (main_v2 world_ok flags_hello) = [] \<and>
   filter isConfigCall (main_v3 ''1.0'' world_ok flags_hello) = [] \<and>
   map (\<lambda>req. req_Header req ''Authorization'') (requestsSent (main_v2 world_ok flags_hello)) =
     [Some [''Bearer sk-flag'']] \<and>
   filesRead (main_v2 world_ok (flags_hello\<lparr>apiToken := ''''\<rparr>)) =
     [''/home/u/.config/openapi/secret.yml'']"
proof -
  have h: "apiToken flags_hello \<noteq> ''''"
    by (simp add: flags_hello_def)
  have r: "map (\<lambda>req. req_Header req ''Authorization'') (requestsSent (main_v2 world_ok flags_hello)) =
             [Some [''Bearer sk-flag'']]"
    by (simp add: example_defs program_defs)
  have f: "filesRead (main_v2 world_ok (flags_hello\<lparr>apiToken := ''''\<rparr>)) =
             [''/home/u/.config/openapi/secret.yml'']"
    by (simp add: example_defs program_defs)
  from token_flag_precedence [OF h, of world_ok "''1.0''"] h r f show ?thesis
    by (simp add: flags_hello_def)
qed

text \<open>
  C7. \<open>loadTokenFromConfig\<close> returns an error exactly when the home directory is not
  found, or the configuration file is not read, or its content is not parsed, or the
  parsed \<^verbatim>\<open>api_token\<close> is empty; a value it returns is that field, and is not empty.
\<close>

theorem loadTokenFromConfig_fails_iff:
  "((\<exists>err. snd (loadTokenFromConfig w) = Inl err) \<longleftrightarrow>
      (isl (os_UserHomeDir w) \<or>
       (\<exists>home. os_UserHomeDir w = Inr home \<and>
          (isl (os_ReadFile w (filepath_Join [home, ''.config'', ''openapi'', ''secret.yml''])) \<or>
           (\<exists>data. os_ReadFile w (filepath_Join [home, ''.config'', ''openapi'', ''secret.yml''])
                      = Inr data \<and>
              (isl (yaml_Unmarshal w data) \<or>
               (\<exists>config. yaml_Unmarshal w data = Inr config \<and> APIToken config = ''''))))))) \<and>
   (\<forall>tok. snd (loadTokenFromConfig w) = Inr tok \<longrightarrow>
      tok \<noteq> '''' \<and>
      (\<exists>home data config.
         os_UserHomeDir w = Inr home \<and>
         os_ReadFile w (filepath_Join [home, ''.config'', ''openapi'', ''secret.yml'']) = Inr data \<and>
         yaml_Unmarshal w data = Inr config \<and> tok = APIToken config))"
  by (auto simp: loadTokenFromConfig_def Let_def split: sum.splits if_splits)

theorem loadTokenFromConfig_fails_iff_witness:
  "snd (loadTokenFromConfig world_ok) = Inr ''sk-file'' \<and>
   snd (loadTokenFromConfig world_notoken) = Inl (Errorf ''API token not found in config file'') \<and>
   (\<exists>err. snd (loadTokenFromConfig world_notoken) = Inl err) \<and>
   os_UserHomeDir world_notoken = Inr ''/home/u'' \<and>
   os_ReadFile world_notoken (filepath_Join [''/home/u'', ''.config'', ''openapi'', ''secret.yml''])
     = Inr ''api_token: sk-file'' \<and>
   yaml_Unmarshal world_notoken ''api_token: sk-file'' = Inr \<lparr>APIToken = ''''\<rparr> \<and>
   (\<exists>home data config.
      os_UserHomeDir world_ok = Inr home \<and>
      os_ReadFile world_ok (filepath_Join [home, ''.config'', ''openapi'', ''secret.yml'']) = Inr data \<and>
      yaml_Unmarshal world_ok data = Inr config \<and> ''sk-file'' = APIToken config)"
proof -
  have ok: "snd (loadTokenFromConfig world_ok) = Inr ''sk-file''"
    by (simp add: example_defs program_defs)
  have no: "snd (loadTokenFromConfig world_notoken) = Inl (Errorf ''API token not found in config file'')"
    by (simp add: world_notoken_def example_defs program_defs)
  have env: "os_UserHomeDir world_notoken = Inr ''/home/u'' \<and>
     os_ReadFile world_notoken (filepath_Join [''/home/u'', ''.config'', ''openapi'', ''secret.yml''])
       = Inr ''api_token: sk-file'' \<and>
     yaml_Unmarshal world_notoken ''api_token: sk-file'' = Inr \<lparr>APIToken = ''''\<rparr>"
    by (simp add: world_notoken_def example_defs program_defs)
  from loadTokenFromConfig_fails_iff [of world_ok] ok
  have "\<exists>home data config.
      os_UserHomeDir world_ok = Inr home \<and>
      os_ReadFile world_ok (filepath_Join [home, ''.config'', ''openapi'', ''secret.yml'']) = Inr data \<and>
      yaml_Unmarshal world_ok data = Inr config \<and> ''sk-file'' = APIToken config"
    by blast
  moreover have "\<exists>err. snd (loadTokenFromConfig world_notoken) = Inl err"
  proof (rule loadTokenFromConfig_fails_iff [of world_notoken, THEN conjunct1, THEN iffD2])
    from env show "isl (os_UserHomeDir world_notoken) \<or>
      (\<exists>home. os_UserHomeDir world_notoken = Inr home \<and>
         (isl (os_ReadFile world_notoken
                 (filepath_Join [home, ''.config'', ''openapi'', ''secret.yml''])) \<or>
          (\<exists>data. os_ReadFile world_notoken
                     (filepath_Join [home, ''.config'', ''openapi'', ''secret.yml'']) = Inr data \<and>
             (isl (yaml_Unmarshal world_notoken data) \<or>
              (\<exists>config. yaml_Unmarshal world_notoken data = Inr config \<and>
                 APIToken config = '''')))))"
      by auto
  qed
  ultimately show ?thesis
    using ok no env by blast
qed

text \<open>
  C10. In the three variants the only path given to \<^verbatim>\<open>os.ReadFile\<close> is
  \<^verbatim>\<open>filepath.Join(home, ".config", "openapi", "secret.yml")\<close>, which for a home directory
  in clean form (other than \<^verbatim>\<open>/\<close> and \<^verbatim>\<open>.\<close>) is the home directory followed by
  \<^verbatim>\<open>/.config/openapi/secret.yml\<close>. The usage text of the third variant names
  \<^verbatim>\<open>~/.config/openai/secret.yml\<close> twice and never the directory \<^verbatim>\<open>openapi\<close>; the path
  with \<^verbatim>\<open>openai\<close> is a different path and is never read.
\<close>

theorem config_path_openapi:
  "(\<forall>p \<in> set (filesRead (fst (loadTokenFromConfig w))) \<union> set (filesRead (main_v1 w fl)) \<union>
          set (filesRead (main_v2 w fl)) \<union> set (filesRead (main_v3 ver w fl)).
      \<exists>home. os_UserHomeDir w = Inr home \<and>
             p = filepath_Join [home, ''.config'', ''openapi'', ''secret.yml'']) \<and>
   (os_UserHomeDir w = Inr home \<longrightarrow>
      filesRead (fst (loadTokenFromConfig w)) =
        [filepath_Join [home, ''.config'', ''openapi'', ''secret.yml'']] \<and>
      filepath_Join [home, ''.config'', ''openai'', ''secret.yml''] \<notin>
        set (filesRead (main_v1 w fl)) \<union> set (filesRead (main_v2 w fl)) \<union>
        set (filesRead (main_v3 ver w fl))) \<and>
   (Clean home = home \<and> home \<noteq> ''/'' \<and> home \<noteq> ''.'' \<longrightarrow>
      filepath_Join [home, ''.config'', ''openapi'', ''secret.yml''] =
        home @ ''/.config/openapi/secret.yml'') \<and>
   filepath_Join [home, ''.config'', ''openai'', ''secret.yml''] \<noteq>
     filepath_Join [home, ''.config'', ''openapi'', ''secret.yml''] \<and>
   usage = [EvPrintln [S usage_msg]] \<and>
   contains usage_msg ''(default: ~/.config/openai/secret.yml)'' \<and>
   contains usage_msg ''And should be located at ~/.config/openai/secret.yml'' \<and>
   \<not> contains usage_msg ''openapi''"
proof -
  have 1: "\<exists>home. os_UserHomeDir w = Inr home \<and>
             p = filepath_Join [home, ''.config'', ''openapi'', ''secret.yml'']"
    if "p \<in> set (filesRead (fst (loadTokenFromConfig w)))" for p
    using that by (cases "os_UserHomeDir w") (simp_all add: loadTokenFromConfig_files)
  have 2: "p \<in> set (filesRead (fst (loadTokenFromConfig w)))"
    if "p \<in> set (filesRead (main_v1 w fl)) \<union> set (filesRead (main_v2 w fl)) \<union>
          set (filesRead (main_v3 ver w fl))" for p
    using that main_files(1) [of w fl] main_files(2) [of w fl] main_files(3) [of ver w fl]
    by blast
  have 3: "filesRead (fst (loadTokenFromConfig w)) =
             [filepath_Join [home, ''.config'', ''openapi'', ''secret.yml'']]"
    if "os_UserHomeDir w = Inr home"
    using that by (simp add: loadTokenFromConfig_files)
  have 4: "filepath_Join [home, ''.config'', ''openai'', ''secret.yml''] \<notin>
             set (filesRead (main_v1 w fl)) \<union> set (filesRead (main_v2 w fl)) \<union>
             set (filesRead (main_v3 ver w fl))"
    if "os_UserHomeDir w = Inr home"
    using 2 3 [OF that] openai_is_not_openapi [of home] by fastforce
  have 5: "contains usage_msg ''(default: ~/.config/openai/secret.yml)''"
    by code_simp
  have 6: "contains usage_msg ''And should be located at ~/.config/openai/secret.yml''"
    by code_simp
  have 7: "\<not> contains usage_msg ''openapi''"
    by code_simp
  from 1 2 3 4 5 6 7 openai_is_not_openapi [of home] filepath_Join_clean_home [of home]
  show ?thesis
    unfolding usage_def by blast
qed

theorem config_path_openapi_witness:
  "os_UserHomeDir world_ok = Inr ''/home/u'' \<and>
   Clean ''/home/u'' = ''/home/u'' \<and>
   filesRead (main_v3 ''1.0'' world_ok flags_notext) = [''/home/u/.config/openapi/secret.yml''] \<and>
   filesRead (fst (loadTokenFromConfig world_ok)) = [''/home/u/.config/openapi/secret.yml''] \<and>
   filepath_Join [''/home/u'', ''.config'', ''openai'', ''secret.yml''] =
     ''/home/u/.config/openai/secret.yml'' \<and>
   ''/home/u/.config/openai/secret.yml'' \<notin> set (filesRead (main_v3 ''1.0'' world_ok flags_notext))"
proof -
  have h: "os_UserHomeDir world_ok = Inr ''/home/u''"
    by (simp add: world_ok_def)
  have c: "Clean ''/home/u'' = ''/home/u''"
    by (simp add: Clean_def cleanStep_def)
  have f: "filesRead (main_v3 ''1.0'' world_ok flags_notext) = [''/home/u/.config/openapi/secret.yml'']"
    by (simp add: example_defs program_defs)
  have j: "filepath_Join [''/home/u'', ''.config'', ''openai'', ''secret.yml''] =
             ''/home/u/.config/openai/secret.yml''"
    by (simp add: filepath_Join_def Clean_def cleanStep_def)
  note t = config_path_openapi [of world_ok flags_notext "''1.0''" "''/home/u''"]
  from t [THEN conjunct2, THEN conjunct1, THEN mp, OF h]
  have r: "filesRead (fst (loadTokenFromConfig world_ok)) =
             [filepath_Join [''/home/u'', ''.config'', ''openapi'', ''secret.yml'']]"
    and n: "filepath_Join [''/home/u'', ''.config'', ''openai'', ''secret.yml''] \<notin>
              set (filesRead (main_v1 world_ok flags_notext)) \<union>
              set (filesRead (main_v2 world_ok flags_notext)) \<union>
              set (filesRead (main_v3 ''1.0'' world_ok flags_notext))"
    by (rule conjunct1, rule conjunct2)
  from t [THEN conjunct2, THEN conjunct2, THEN conjunct1] c
  have e: "filepath_Join [''/home/u'', ''.config'', ''openapi'', ''secret.yml''] =
             ''/home/u'' @ ''/.config/openapi/secret.yml''"
    by simp
  from n have n': "filepath_Join [''/home/u'', ''.config'', ''openai'', ''secret.yml''] \<notin>
                     set (filesRead (main_v3 ''1.0'' world_ok flags_notext))"
    by blast
  from h c f j r e n' show ?thesis
    by simp
qed

section \<open>The text to translate\<close>

text \<open>
  C4, as amended. For a list of positional arguments that is not empty, the two variants
  of \<^verbatim>\<open>part_000\<close> take as text the arguments joined by single spaces, and make no call
  on standard input; \<^verbatim>\<open>src/main.go\<close> takes the first argument alone, which is the join
  when there is one argument.
\<close>

theorem textToTranslate_arguments:
  assumes "as \<noteq> []"
  shows "textToTranslate w as = ([], Some (strings_Join as '' '')) \<and>
         textToTranslate_v1 as = ([], Some (hd as)) \<and>
         (length as = 1 \<longrightarrow> hd as = strings_Join as '' '')"
proof -
  have "hd as = strings_Join as '' ''" if "length as = 1"
    using that by (cases as) simp_all
  with assms show ?thesis
    by (simp add: textToTranslate_def textToTranslate_v1_def hd_conv_nth)
qed

theorem textToTranslate_arguments_witness:
  "[''Hello'', ''world''] \<noteq> [] \<and>
   textToTranslate world_pipe [''Hello'', ''world''] = ([], Some ''Hello world'') \<and>
   textToTranslate_v1 [''Hello'', ''world''] = ([], Some ''Hello'') \<and>
   textToTranslate_v1 [''Hello''] = ([], Some (strings_Join [''Hello''] '' ''))"
proof -
  have h: "[''Hello'', ''world''] \<noteq> ([] :: string list)" and h1: "[''Hello''] \<noteq> ([] :: string list)"
    by simp_all
  from textToTranslate_arguments [OF h, of world_pipe] textToTranslate_arguments [OF h1, of world_pipe]
  show ?thesis by simp
qed

text \<open>
  C4 as it stands fails on \<^verbatim>\<open>src/main.go\<close>: with the arguments "Hello" and "world" the
  text is "Hello", not "Hello world", and the request sent carries "Hello" alone.
\<close>

theorem textToTranslate_v1_first_argument_only:
  "[''Hello'', ''world''] \<noteq> [] \<and>
   snd (textToTranslate_v1 [''Hello'', ''world'']) \<noteq> Some (strings_Join [''Hello'', ''world''] '' '') \<and>
   snd (textToTranslate_v1 [''Hello'', ''world'']) = Some ''Hello'' \<and>
   strings_Join [''Hello'', ''world''] '' '' = ''Hello world'' \<and>
   args flags_hello = [''Hello'', ''world''] \<and>
   map req_Body (requestsSent (main_v1 world_ok flags_hello)) =
     [''You are a translator that only gives the translated text|Translate this from en to es: Hello'']"
  by (simp add: example_defs program_defs)

text \<open>
  C5, as amended. With no positional argument: \<^verbatim>\<open>src/main.go\<close> logs "No text provided
  for translation." and exits with status 1, and sends no request. In the two variants
  of \<^verbatim>\<open>part_000\<close>, when standard input is a terminal or its lines joined are the empty
  string, the text is the empty string and nothing rejects it: as soon as the credential
  is resolved and the request is built, the one request sent is the one for the empty
  text.
\<close>

theorem empty_input:
  assumes "args fl = []"
  shows "main_v1 w fl =
           (if verbose fl then [EvLog ''Verbose mode enabled.'' []] else []) @
           [EvLog ''No text provided for translation.'' [], EvExit 1] \<and>
         requestsSent (main_v1 w fl) = [] \<and>
         (\<forall>mode. Stdin_Stat w = Inr mode \<and>
                 (mode AND os_ModeCharDevice \<noteq> 0 \<or>
                  strings_Join (Stdin_tokens w) '' '' = '''') \<longrightarrow>
            snd (textToTranslate w (args fl)) = Some '''' \<and>
            (\<forall>tok payload.
               snd (token w (apiToken fl)) = Some tok \<and>
               json_Marshal w (chatRequest (fromLang fl) (toLang fl) '''') = Inr payload \<and>
               NewRequest_error w ''POST'' url = None \<longrightarrow>
               requestsSent (main_v2 w fl) = [theRequest payload tok] \<and>
               (\<not> version fl \<longrightarrow> requestsSent (main_v3 ver w fl) = [theRequest payload tok])))"
proof -
  have 1: "main_v1 w fl =
           (if verbose fl then [EvLog ''Verbose mode enabled.'' []] else []) @
           [EvLog ''No text provided for translation.'' [], EvExit 1]"
    using assms by (simp add: main_v1_def textToTranslate_v1_def log_Fatalf_def)
  have 2: "requestsSent (main_v1 w fl) = []"
    using assms by (simp add: main_v1_requests)
  have 3: "snd (textToTranslate w (args fl)) = Some ''''"
    if "Stdin_Stat w = Inr mode"
      and "mode AND os_ModeCharDevice \<noteq> 0 \<or> strings_Join (Stdin_tokens w) '' '' = ''''"
    for mode
    using assms that by (auto simp: textToTranslate_def scanLoop_append)
  have 4: "requestsSent (main_v2 w fl) = [theRequest payload tok] \<and>
           (\<not> version fl \<longrightarrow> requestsSent (main_v3 ver w fl) = [theRequest payload tok])"
    if "snd (textToTranslate w (args fl)) = Some ''''"
      and "snd (token w (apiToken fl)) = Some tok"
      and "json_Marshal w (chatRequest (fromLang fl) (toLang fl) '''') = Inr payload"
      and "NewRequest_error w ''POST'' url = None"
    for tok payload
    using that by (simp add: main_v2_requests main_v3_requests translate_requests)
  from 1 2 3 4 show ?thesis by blast
qed

theorem empty_input_witness:
  "args flags_notext = [] \<and>
   Stdin_Stat world_ok = Inr os_ModeCharDevice \<and>
   os_ModeCharDevice AND os_ModeCharDevice \<noteq> 0 \<and>
   Stdin_Stat world_pipe = Inr 0 \<and> Stdin_tokens world_pipe = [] \<and>
   snd (token world_ok (apiToken flags_notext)) = Some ''sk-file'' \<and>
   json_Marshal world_ok (chatRequest (fromLang flags_notext) (toLang flags_notext) '''') =
     Inr ''You are a translator that only gives the translated text|Translate this from en to es: '' \<and>
   NewRequest_error world_ok ''POST'' url = None \<and>
   requestsSent (main_v2 world_ok flags_notext) =
     [theRequest ''You are a translator that only gives the translated text|Translate this from en to es: ''
        ''sk-file''] \<and>
   requestsSent (main_v3 ''1.0'' world_pipe flags_notext) =
     [theRequest ''You are a translator that only gives the translated text|Translate this from en to es: ''
        ''sk-file''] \<and>
   main_v1 world_ok flags_notext = [EvLog ''No text provided for translation.'' [], EvExit 1]"
proof -
  have a: "args flags_notext = []"
    by (simp add: flags_notext_def)
  have s: "Stdin_Stat world_ok = Inr os_ModeCharDevice \<and>
           (os_ModeCharDevice AND os_ModeCharDevice \<noteq> 0 \<or>
            strings_Join (Stdin_tokens world_ok) '' '' = '''')"
    by (simp add: world_ok_def os_ModeCharDevice_def)
  have s': "Stdin_Stat world_pipe = Inr 0 \<and>
            (0 AND os_ModeCharDevice \<noteq> 0 \<or>
             strings_Join (Stdin_tokens world_pipe) '' '' = '''')"
    by (simp add: world_pipe_def world_ok_def)
  have t: "snd (token world_ok (apiToken flags_notext)) = Some ''sk-file'' \<and>
           json_Marshal world_ok (chatRequest (fromLang flags_notext) (toLang flags_notext) '''') =
             Inr ''You are a translator that only gives the translated text|Translate this from en to es: '' \<and>
           NewRequest_error world_ok ''POST'' url = None"
    by (simp add: example_defs program_defs)
  have t': "snd (token world_pipe (apiToken flags_notext)) = Some ''sk-file'' \<and>
           json_Marshal world_pipe (chatRequest (fromLang flags_notext) (toLang flags_notext) '''') =
             Inr ''You are a translator that only gives the translated text|Translate this from en to es: '' \<and>
           NewRequest_error world_pipe ''POST'' url = None"
    by (simp add: world_pipe_def example_defs program_defs)
  have v: "\<not> version flags_notext" "\<not> verbose flags_notext"
    by (simp_all add: flags_notext_def flags_hello_def)
  note e = empty_input [OF a, of world_ok "''1.0''"]
  note e' = empty_input [OF a, of world_pipe "''1.0''"]
  from e s t have r2: "requestsSent (main_v2 world_ok flags_notext) =
     [theRequest ''You are a translator that only gives the translated text|Translate this from en to es: ''
        ''sk-file'']"
    by blast
  from e' s' t' v have r3: "requestsSent (main_v3 ''1.0'' world_pipe flags_notext) =
     [theRequest ''You are a translator that only gives the translated text|Translate this from en to es: ''
        ''sk-file'']"
    by blast
  from e v have m1: "main_v1 world_ok flags_notext =
      [EvLog ''No text provided for translation.'' [], EvExit 1]"
    by simp
  from a s s' t r2 r3 m1 show ?thesis
    by (simp add: os_ModeCharDevice_def world_pipe_def world_ok_def)
qed

text \<open>
  C5 as it stands fails on \<^verbatim>\<open>src/main.go\<close>: with no positional argument, a terminal on
  standard input and the configuration file in place, the run is the log line and the
  exit, and no request is sent.
\<close>

theorem main_v1_rejects_empty_input:
  "args flags_notext = [] \<and>
   main_v1 world_ok flags_notext = [EvLog ''No text provided for translation.'' [], EvExit 1] \<and>
   requestsSent (main_v1 world_ok flags_notext) = []"
  by (simp add: example_defs program_defs)

section \<open>The request\<close>

text \<open>
  C6. The request record is a function of the source tag, the target tag and the text:
  the model "gpt-4o-mini" and two messages, the system instruction and the user message
  "Translate this from f to t: x". \<open>translate\<close> sends at most one request, a POST to
  the fixed URL, and its body is \<^verbatim>\<open>json.Marshal\<close> of that record, whatever the key and
  \<open>verbose\<close> are.
\<close>

theorem request_construction:
  "chatRequest f t x =
     \<lparr>Model = ''gpt-4o-mini'',
      Messages =
        [\<lparr>Role = ''system'',
          Content = ''You are a translator that only gives the translated text''\<rparr>,
         \<lparr>Role = ''user'',
          Content = ''Translate this from '' @ f @ '' to '' @ t @ '': '' @ x\<rparr>]\<rparr> \<and>
   length (requestsSent (fst (translate w k f t x v))) \<le> 1 \<and>
   (\<forall>req \<in> set (requestsSent (fst (translate w k f t x v))).
      Method req = ''POST'' \<and> URL req = url \<and>
      json_Marshal w (chatRequest f t x) = Inr (req_Body req))"
  by (auto simp: chatRequest_def messages_def translate_requests theRequest_def
      split: sum.splits option.splits)

theorem request_construction_witness:
  "map req_Body (requestsSent (fst (translate world_ok ''sk-flag'' ''en'' ''es'' ''Hello'' False))) =
     [''You are a translator that only gives the translated text|Translate this from en to es: Hello''] \<and>
   json_Marshal world_ok (chatRequest ''en'' ''es'' ''Hello'') =
     Inr ''You are a translator that only gives the translated text|Translate this from en to es: Hello'' \<and>
   map Method (requestsSent (fst (translate world_ok ''sk-flag'' ''en'' ''es'' ''Hello'' False))) =
     [''POST'']"
proof -
  have r: "requestsSent (fst (translate world_ok ''sk-flag'' ''en'' ''es'' ''Hello'' False)) =
             [theRequest ''You are a translator that only gives the translated text|Translate this from en to es: Hello'' ''sk-flag'']"
    by (simp add: translate_requests chatRequest_def messages_def world_ok_def)
  from request_construction [of "''en''" "''es''" "''Hello''" world_ok "''sk-flag''" False]
  have "\<forall>req \<in> set (requestsSent (fst (translate world_ok ''sk-flag'' ''en'' ''es'' ''Hello'' False))).
          Method req = ''POST'' \<and> URL req = url \<and>
          json_Marshal world_ok (chatRequest ''en'' ''es'' ''Hello'') = Inr (req_Body req)"
    by blast
  with r show ?thesis
    by (simp add: theRequest_def)
qed

section \<open>The answer of the server\<close>

text \<open>
  C2. When the transport answers with status 200 and the body parses into a response
  whose error object has a message that is not empty, \<open>translate\<close> returns an error, made
  by \<^verbatim>\<open>errors.New\<close> from that message, whose text is that message; the choices of the
  response play no part.
\<close>

theorem translate_error_object:
  assumes "answers w k f t x resp" and "parsed w resp cr"
    and "error_Message (Error cr) \<noteq> ''''"
  shows "snd (translate w k f t x v) = Inl (ErrorsNew (error_Message (Error cr))) \<and>
         err_Error (ErrorsNew (error_Message (Error cr))) = error_Message (Error cr)"
proof -
  from assms(1) obtain payload where
    "json_Marshal w (chatRequest f t x) = Inr payload"
    "NewRequest_error w ''POST'' url = None"
    "client_Do w (theRequest payload k) = Inr resp"
    by (rule answersE)
  then show ?thesis
    using assms(2,3) by (simp add: translate_answered parsed_def Let_def)
qed

theorem translate_error_object_witness:
  "answers world_error ''sk-flag'' ''en'' ''es'' ''Hello'' resp200 \<and>
   parsed world_error resp200 cr_error \<and>
   error_Message (Error cr_error) \<noteq> '''' \<and>
   Choices cr_error \<noteq> [] \<and>
   snd (translate world_error ''sk-flag'' ''en'' ''es'' ''Hello'' False) =
     Inl (ErrorsNew ''rate limit exceeded'') \<and>
   err_Error (ErrorsNew ''rate limit exceeded'') = ''rate limit exceeded''"
proof -
  have a: "answers world_error ''sk-flag'' ''en'' ''es'' ''Hello'' resp200"
    by (simp add: answers_def world_error_def world_ok_def)
  have p: "parsed world_error resp200 cr_error"
    by (simp add: parsed_def world_error_def world_ok_def resp200_def)
  have e: "error_Message (Error cr_error) \<noteq> ''''"
    by (simp add: cr_error_def)
  from translate_error_object [OF a p e, of False] a p e show ?thesis
    by (simp add: cr_error_def)
qed

text \<open>
  C3. When the transport answers with status 200 and the body parses into a response
  whose error message is empty, \<open>translate\<close> returns a text if and only if there is a
  choice; the text is then \<^verbatim>\<open>strings.TrimSpace\<close> of the content of the first choice's
  message, and with no choice the result is the error "no translation found in response".
  A text returned is the content without the white space before and after it: it
  neither starts nor ends with white space.
\<close>

theorem translate_choices:
  assumes "answers w k f t x resp" and "parsed w resp cr"
    and "error_Message (Error cr) = ''''"
  shows "((\<exists>s. snd (translate w k f t x v) = Inr s) \<longleftrightarrow> Choices cr \<noteq> []) \<and>
         (Choices cr \<noteq> [] \<longrightarrow>
            snd (translate w k f t x v) =
              Inr (strings_TrimSpace (Content (choice_Message (hd (Choices cr)))))) \<and>
         (Choices cr = [] \<longrightarrow>
            snd (translate w k f t x v) = Inl (ErrorsNew ''no translation found in response'')) \<and>
         (\<forall>s. snd (translate w k f t x v) = Inr s \<longrightarrow>
            \<not> startsWithSpace s \<and> \<not> endsWithSpace s \<and>
            (\<exists>l r. Content (choice_Message (hd (Choices cr))) = l @ s @ r \<and>
               trimLeftSpace l = [] \<and> trimRightSpace_rev (rev r) = []))"
proof -
  from assms(1) obtain payload where
    "json_Marshal w (chatRequest f t x) = Inr payload"
    "NewRequest_error w ''POST'' url = None"
    "client_Do w (theRequest payload k) = Inr resp"
    by (rule answersE)
  then show ?thesis
    using assms(2,3) strings_TrimSpace_trimmed [of "Content (choice_Message (Choices cr ! 0))"]
    by (simp add: translate_answered parsed_def Let_def hd_conv_nth)
qed

theorem translate_choices_witness:
  "answers world_ok ''sk-flag'' ''en'' ''es'' ''Hello'' resp200 \<and>
   parsed world_ok resp200 cr_ok \<and>
   error_Message (Error cr_ok) = '''' \<and>
   Choices cr_ok \<noteq> [] \<and>
   snd (translate world_ok ''sk-flag'' ''en'' ''es'' ''Hello'' False) = Inr ''Hola mundo'' \<and>
   answers world_nochoice ''sk-flag'' ''en'' ''es'' ''Hello'' resp200 \<and>
   parsed world_nochoice resp200 cr_nochoice \<and>
   error_Message (Error cr_nochoice) = '''' \<and>
   Choices cr_nochoice = [] \<and>
   snd (translate world_nochoice ''sk-flag'' ''en'' ''es'' ''Hello'' False) =
     Inl (ErrorsNew ''no translation found in response'')"
proof -
  have a: "answers world_ok ''sk-flag'' ''en'' ''es'' ''Hello'' resp200"
    by (simp add: answers_def world_ok_def)
  have p: "parsed world_ok resp200 cr_ok"
    by (simp add: parsed_def world_ok_def resp200_def)
  have e: "error_Message (Error cr_ok) = ''''"
    by (simp add: cr_ok_def)
  have a': "answers world_nochoice ''sk-flag'' ''en'' ''es'' ''Hello'' resp200"
    by (simp add: answers_def world_nochoice_def world_ok_def)
  have p': "parsed world_nochoice resp200 cr_nochoice"
    by (simp add: parsed_def world_nochoice_def world_ok_def resp200_def)
  have e': "error_Message (Error cr_nochoice) = ''''"
    by (simp add: cr_nochoice_def)
  have trim: "strings_TrimSpace ''  Hola mundo  '' = ''Hola mundo''"
    by (simp add: strings_TrimSpace_def asciiSpace_def space2_def space3_def)
  from translate_choices [OF a p e, of False] translate_choices [OF a' p' e', of False]
    a p e a' p' e' trim
  show ?thesis
    by (simp add: cr_ok_def cr_nochoice_def choice0_def)
qed

text \<open>
  C8. When the transport answers with a status other than 200, \<open>translate\<close> returns the
  error "unexpected status code from OpenAI API: " followed by the status code in
  decimal, and the body is not given to \<^verbatim>\<open>json.Unmarshal\<close>.
\<close>

theorem translate_status_not_ok:
  assumes "answers w k f t x resp" and "StatusCode resp \<noteq> 200"
  shows "snd (translate w k f t x v) =
           Inl (Errorf_d ''unexpected status code from OpenAI API: '' (StatusCode resp)) \<and>
         err_Error (Errorf_d ''unexpected status code from OpenAI API: '' (StatusCode resp)) =
           ''unexpected status code from OpenAI API: '' @ fmt_d (StatusCode resp) \<and>
         parsedBodies (fst (translate w k f t x v)) = []"
proof -
  from assms(1) obtain payload where
    "json_Marshal w (chatRequest f t x) = Inr payload"
    "NewRequest_error w ''POST'' url = None"
    "client_Do w (theRequest payload k) = Inr resp"
    by (rule answersE)
  then show ?thesis
    using assms(2) by (simp add: translate_answered Let_def parsedBodies_append)
qed

theorem translate_status_not_ok_witness:
  "answers world_500 ''sk-flag'' ''en'' ''es'' ''Hello'' resp500 \<and>
   StatusCode resp500 \<noteq> 200 \<and>
   snd (translate world_500 ''sk-flag'' ''en'' ''es'' ''Hello'' True) =
     Inl (Errorf_d ''unexpected status code from OpenAI API: '' 500) \<and>
   err_Error (Errorf_d ''unexpected status code from OpenAI API: '' 500) =
     ''unexpected status code from OpenAI API: 500'' \<and>
   parsedBodies (fst (translate world_500 ''sk-flag'' ''en'' ''es'' ''Hello'' True)) = []"
proof -
  have a: "answers world_500 ''sk-flag'' ''en'' ''es'' ''Hello'' resp500"
    by (simp add: answers_def world_500_def world_ok_def)
  have s: "StatusCode resp500 \<noteq> 200"
    by (simp add: resp500_def)
  have d: "fmt_d 500 = ''500''"
    by code_simp
  from translate_status_not_ok [OF a s, of True] a s d show ?thesis
    by (simp add: resp500_def)
qed

text \<open>
  C9. The value \<open>translate\<close> returns does not depend on \<open>verbose\<close>, and neither do the
  calls it makes apart from those of the logger: the calls of the run with \<open>verbose\<close>,
  the logger's left out, are the calls of the run without.
\<close>

theorem translate_verbose_noninterference:
  "snd (translate w k f t x True) = snd (translate w k f t x False) \<and>
   filter (\<lambda>e. \<not> isLog e) (fst (translate w k f t x True)) = fst (translate w k f t x False)"
proof (cases rule: translate_cases [where w = w and f = f and t = t and x = x and k = k])
  case (marshal_error err)
  then show ?thesis by (simp add: translate_marshal_error)
next
  case (request_error payload err)
  then show ?thesis by (simp add: translate_request_error)
next
  case (transport_error payload err)
  then show ?thesis by (simp add: translate_transport_error)
next
  case (answered payload resp)
  then show ?thesis
    by (simp add: translate_answered Let_def split: option.splits sum.splits)
qed

end
